theory Spec2Isabelle
  imports Complex_Main "HOL-Library.AList"
begin

section \<open>Values of the NLU payload\<close>

text \<open>
  The payload returned by the NLU service is typed \<^verbatim>\<open>any\<close> in \<^verbatim>\<open>robin.ts\<close>: it is whatever
  JSON the service answered, already parsed. \<open>jsval\<close> is that value. \<open>JUndefined\<close> is what
  reading a missing property gives; it never occurs inside a parsed payload. A number is
  the (finite) value of the parsed double. An object is the list of its own properties in
  enumeration order, each key once.
\<close>

datatype jsval =
    JUndefined
  | JNull
  | JBool bool
  | JNum real
  | JStr string
  | JArr "jsval list"
  | JObj "(string \<times> jsval) list"

datatype error = UsageError | TypeError | CollaboratorError

text \<open>\<^verbatim>\<open>!!v\<close>: the values that count as false are undefined, null, false, 0 and the empty string.\<close>

fun truthy :: "jsval \<Rightarrow> bool" where
  "truthy JUndefined = False"
| "truthy JNull = False"
| "truthy (JBool b) = b"
| "truthy (JNum r) = (r \<noteq> 0)"
| "truthy (JStr s) = (s \<noteq> [])"
| "truthy (JArr xs) = True"
| "truthy (JObj kvs) = True"

text \<open>Reading a property of null or undefined throws a TypeError; of anything else it does not.\<close>

fun nullish :: "jsval \<Rightarrow> bool" where
  "nullish JUndefined = True"
| "nullish JNull = True"
| "nullish (JBool b) = False"
| "nullish (JNum r) = False"
| "nullish (JStr s) = False"
| "nullish (JArr xs) = False"
| "nullish (JObj kvs) = False"

text \<open>
  \<^verbatim>\<open>v.k\<close> for the property names the program reads (\<^verbatim>\<open>intents\<close>, \<^verbatim>\<open>entities\<close>, \<^verbatim>\<open>traits\<close>,
  \<^verbatim>\<open>wit$...\<close>, \<^verbatim>\<open>confidence\<close>, \<^verbatim>\<open>value\<close>, \<^verbatim>\<open>name\<close>, \<^verbatim>\<open>type\<close>, \<^verbatim>\<open>typeCheck\<close>, \<^verbatim>\<open>body\<close>,
  \<^verbatim>\<open>grain\<close>, \<^verbatim>\<open>from\<close>, \<^verbatim>\<open>to\<close>): none of them is a property of a string, number, boolean or
  array, so only an object can answer with something else than undefined.
\<close>

fun js_prop :: "jsval \<Rightarrow> string \<Rightarrow> jsval" where
  "js_prop (JObj kvs) k = (case map_of kvs k of Some v \<Rightarrow> v | None \<Rightarrow> JUndefined)"
| "js_prop JUndefined k = JUndefined"
| "js_prop JNull k = JUndefined"
| "js_prop (JBool b) k = JUndefined"
| "js_prop (JNum r) k = JUndefined"
| "js_prop (JStr s) k = JUndefined"
| "js_prop (JArr xs) k = JUndefined"

text \<open>\<^verbatim>\<open>v[0]\<close> on a value that is not null or undefined.\<close>

fun index0 :: "jsval \<Rightarrow> jsval" where
  "index0 (JArr xs) = (case xs of [] \<Rightarrow> JUndefined | x # rest \<Rightarrow> x)"
| "index0 (JStr s) = (case s of [] \<Rightarrow> JUndefined | c # rest \<Rightarrow> JStr [c])"
| "index0 (JObj kvs) = js_prop (JObj kvs) ''0''"
| "index0 JUndefined = JUndefined"
| "index0 JNull = JUndefined"
| "index0 (JBool b) = JUndefined"
| "index0 (JNum r) = JUndefined"

text \<open>
  \<^verbatim>\<open>a > b\<close>. Both operands are converted to numbers unless both are strings; undefined
  converts to NaN, and a comparison with NaN is false. Numbers, null and booleans are
  compared here; what the language does with a string, an array or an object operand
  (parsing, joining) is left to the parameter \<open>coerce\<close>.
\<close>

datatype numeric = Num real | NaN | Coerced

fun toNumber :: "jsval \<Rightarrow> numeric" where
  "toNumber JUndefined = NaN"
| "toNumber JNull = Num 0"
| "toNumber (JBool b) = Num (if b then 1 else 0)"
| "toNumber (JNum r) = Num r"
| "toNumber (JStr s) = Coerced"
| "toNumber (JArr xs) = Coerced"
| "toNumber (JObj kvs) = Coerced"

fun js_gt :: "(jsval \<Rightarrow> jsval \<Rightarrow> bool) \<Rightarrow> jsval \<Rightarrow> jsval \<Rightarrow> bool" where
  "js_gt coerce a b =
     (case (toNumber a, toNumber b) of
        (NaN, y) \<Rightarrow> False
      | (x, NaN) \<Rightarrow> False
      | (Num x, Num y) \<Rightarrow> x > y
      | (x, y) \<Rightarrow> coerce a b)"

text \<open>
  \<^verbatim>\<open>Object.values(v)\<close> and the spread \<^verbatim>\<open>...v\<close>. A string spreads into its characters; a
  number, a boolean, an object, null and undefined are not iterable.
\<close>

fun values_of :: "jsval \<Rightarrow> error + jsval list" where
  "values_of (JObj kvs) = Inr (map snd kvs)"
| "values_of (JArr xs) = Inr xs"
| "values_of (JStr s) = Inr (map (\<lambda>c. JStr [c]) s)"
| "values_of (JBool b) = Inr []"
| "values_of (JNum r) = Inr []"
| "values_of JUndefined = Inl TypeError"
| "values_of JNull = Inl TypeError"

fun spread :: "jsval \<Rightarrow> error + jsval list" where
  "spread (JArr xs) = Inr xs"
| "spread (JStr s) = Inr (map (\<lambda>c. JStr [c]) s)"
| "spread (JObj kvs) = Inl TypeError"
| "spread (JBool b) = Inl TypeError"
| "spread (JNum r) = Inl TypeError"
| "spread JUndefined = Inl TypeError"
| "spread JNull = Inl TypeError"

section \<open>Dates, intervals and the collaborators\<close>

text \<open>
  A \<^verbatim>\<open>DateTime\<close> of the date library is its timestamp, in milliseconds since the epoch; an
  \<^verbatim>\<open>Interval\<close> is its two ends. Invalid dates and intervals of the library are not
  represented. What the library computes from text and calendars comes in through the
  environment, beside the clock and the other collaborators:
  \<^item> \<open>now\<close>: \<^verbatim>\<open>DateTime.local()\<close>, the same instant throughout a turn;
  \<^item> \<open>fromISO\<close>: \<^verbatim>\<open>DateTime.fromISO\<close>;
  \<^item> \<open>startOf\<close>, \<open>endOf\<close>: \<^verbatim>\<open>dt.startOf(unit)\<close>, \<^verbatim>\<open>dt.endOf(unit)\<close>;
  \<^item> \<open>coerceGt\<close>: the comparison of operands that are not numbers (see \<open>js_gt\<close>);
  \<^item> \<open>jokes\<close>: the joke list of the message catalog;
  \<^item> \<open>witText\<close>, \<open>witVoice\<close>: the two requests to the NLU service, which answer with the
    payload or fail.
\<close>

type_synonym DateTime = int

record Interval =
  interval_start :: DateTime
  interval_end :: DateTime

definition fromDateTimes :: "DateTime \<Rightarrow> DateTime \<Rightarrow> Interval" where
  "fromDateTimes s e = \<lparr>interval_start = s, interval_end = e\<rparr>"

record env =
  now :: DateTime
  fromISO :: "jsval \<Rightarrow> DateTime"
  startOf :: "jsval \<Rightarrow> DateTime \<Rightarrow> DateTime"
  endOf :: "jsval \<Rightarrow> DateTime \<Rightarrow> DateTime"
  coerceGt :: "jsval \<Rightarrow> jsval \<Rightarrow> bool"
  jokes :: "string list"
  witText :: "string \<Rightarrow> DateTime \<Rightarrow> error + jsval"
  witVoice :: "nat list \<Rightarrow> DateTime \<Rightarrow> error + jsval"

section \<open>The ephemeral facts and their normalization\<close>

text \<open>
  \<^verbatim>\<open>IEphemeralContext\<close>. The fields that are copied out of the payload hold whatever the
  payload held there; an optional field that was never set is \<open>JUndefined\<close> or \<open>None\<close>.
\<close>

record money_fact =
  money_body :: jsval
  money_value :: jsval

record moment_fact =
  moment_grain :: jsval
  moment_value :: DateTime

record interval_fact =
  interval_grain :: jsval
  interval_value :: Interval

record IEphemeralContext =
  greetings :: bool
  bye :: bool
  thanks :: bool
  sentiment :: jsval
  intent :: jsval
  item :: jsval
  money :: "money_fact option"
  moment :: "moment_fact option"
  interval :: "interval_fact option"

text \<open>The scaffold that \<^verbatim>\<open>process\<close> starts from.\<close>

definition emptyEphemeral :: IEphemeralContext where
  "emptyEphemeral =
     \<lparr>greetings = False, bye = False, thanks = False,
      sentiment = JStr ''neutral'', intent = JStr [],
      item = JUndefined, money = None, moment = None, interval = None\<rparr>"

text \<open>
  The three \<^verbatim>\<open>process...\<close> functions write into the ephemeral object they are given. A
  throw leaves the object as far as it was written, so each returns the object together
  with the error, if any.
\<close>

definition processTraits ::
  "env \<Rightarrow> jsval \<Rightarrow> IEphemeralContext \<Rightarrow> IEphemeralContext \<times> error option" where
  "processTraits env wit ephemeral =
     (if nullish wit \<or> nullish (js_prop wit ''traits'') then (ephemeral, Some TypeError)
      else
        let traits = js_prop wit ''traits'';
            e1 = ephemeral\<lparr>thanks := truthy (js_prop traits ''wit$thanks'')\<rparr>;
            e2 = e1\<lparr>greetings := truthy (js_prop traits ''wit$greetings'')\<rparr>;
            e3 = e2\<lparr>bye := truthy (js_prop traits ''wit$bye'')\<rparr>;
            e4 = (if greetings e3 \<and> bye e3 then
                    (if js_gt (coerceGt env)
                          (js_prop (js_prop traits ''wit$greetings'') ''confidence'')
                          (js_prop (js_prop traits ''wit$bye'') ''confidence'')
                     then e3\<lparr>bye := False\<rparr>
                     else e3\<lparr>greetings := False\<rparr>)
                  else e3)
        in
          if truthy (js_prop traits ''wit$sentiment'') then
            (let first = index0 (js_prop traits ''wit$sentiment'')
             in if nullish first then (e4, Some TypeError)
                else (e4\<lparr>sentiment := js_prop first ''value''\<rparr>, None))
          else (e4, None))"

text \<open>
  \<^verbatim>\<open>wit.intents.map((i) => i.name)[0] || ""\<close>: only an array has \<^verbatim>\<open>map\<close>, and the callback
  reads \<^verbatim>\<open>name\<close> of every entry, not only of the first.
\<close>

definition processIntents ::
  "jsval \<Rightarrow> IEphemeralContext \<Rightarrow> IEphemeralContext \<times> error option" where
  "processIntents wit ephemeral =
     (if nullish wit then (ephemeral, Some TypeError)
      else
        case js_prop wit ''intents'' of
          JArr xs \<Rightarrow>
            if list_ex nullish xs then (ephemeral, Some TypeError)
            else
              (let names = map (\<lambda>i. js_prop i ''name'') xs;
                   first = (case names of [] \<Rightarrow> JUndefined | n # rest \<Rightarrow> n)
               in (ephemeral\<lparr>intent := (if truthy first then first else JStr [])\<rparr>, None))
        | other \<Rightarrow> (ephemeral, Some TypeError))"

text \<open>The body of the \<^verbatim>\<open>switch\<close> over \<^verbatim>\<open>entity.name\<close>, for an entity that is not null.\<close>

definition processEntity :: "env \<Rightarrow> jsval \<Rightarrow> IEphemeralContext \<Rightarrow> IEphemeralContext" where
  "processEntity env entity ephemeral =
     (if js_prop entity ''name'' = JStr ''item'' then
        (if js_prop entity ''type'' = JStr ''value''
         then ephemeral\<lparr>item := js_prop entity ''value''\<rparr>
         else ephemeral)
      else if js_prop entity ''name'' = JStr ''wit$amount_of_money'' then
        (if js_prop entity ''type'' = JStr ''value''
         then ephemeral\<lparr>money := Some \<lparr>money_body = js_prop entity ''body'',
                                        money_value = js_prop entity ''value''\<rparr>\<rparr>
         else ephemeral)
      else if js_prop entity ''name'' = JStr ''wit$number'' then
        (if js_prop entity ''type'' = JStr ''value'' \<and> money ephemeral = None
         then ephemeral\<lparr>money := Some \<lparr>money_body = js_prop entity ''body'',
                                        money_value = js_prop entity ''value''\<rparr>\<rparr>
         else ephemeral)
      else if js_prop entity ''name'' = JStr ''wit$datetime'' then
        (if js_prop entity ''type'' = JStr ''value''
         then ephemeral\<lparr>moment := Some \<lparr>moment_grain = js_prop entity ''grain'',
                                         moment_value = fromISO env (js_prop entity ''value'')\<rparr>\<rparr>
         else if js_prop entity ''typeCheck'' = JStr ''interval''
         then ephemeral\<lparr>interval := Some \<lparr>interval_grain = js_prop entity ''grain'',
                                           interval_value =
                                             fromDateTimes (fromISO env (js_prop entity ''from''))
                                                           (fromISO env (js_prop entity ''to''))\<rparr>\<rparr>
         else ephemeral)
      else ephemeral)"

fun entitiesLoop ::
  "env \<Rightarrow> jsval list \<Rightarrow> IEphemeralContext \<Rightarrow> IEphemeralContext \<times> error option" where
  "entitiesLoop env [] ephemeral = (ephemeral, None)"
| "entitiesLoop env (entity # rest) ephemeral =
     (if nullish entity then (ephemeral, Some TypeError)
      else entitiesLoop env rest (processEntity env entity ephemeral))"

text \<open>The \<^verbatim>\<open>reduce\<close> that flattens the groups: \<^verbatim>\<open>a.push(...e)\<close> for each group \<^verbatim>\<open>e\<close>.\<close>

fun flatten :: "jsval list \<Rightarrow> error + jsval list" where
  "flatten [] = Inr []"
| "flatten (e # es) =
     (case spread e of
        Inl err \<Rightarrow> Inl err
      | Inr xs \<Rightarrow> (case flatten es of Inl err \<Rightarrow> Inl err | Inr ys \<Rightarrow> Inr (xs @ ys)))"

definition processEntities ::
  "env \<Rightarrow> jsval \<Rightarrow> IEphemeralContext \<Rightarrow> IEphemeralContext \<times> error option" where
  "processEntities env wit ephemeral =
     (if nullish wit then (ephemeral, Some TypeError)
      else
        case values_of (js_prop wit ''entities'') of
          Inl err \<Rightarrow> (ephemeral, Some err)
        | Inr groups \<Rightarrow>
            (case flatten groups of
               Inl err \<Rightarrow> (ephemeral, Some err)
             | Inr entities \<Rightarrow> entitiesLoop env entities ephemeral))"

text \<open>
  Lines 645 to 647 of \<^verbatim>\<open>process\<close>: \<^verbatim>\<open>wit.intents = wit.intents || []\<close> and the same for
  \<^verbatim>\<open>entities\<close> and \<^verbatim>\<open>traits\<close>. Reading a property of null or undefined throws, and so does
  (the module being in strict mode) writing a property of a string, number or boolean. An
  assignment to an object replaces the value in place or appends the property. An array
  takes the three properties too; of such a payload only they are kept, since nothing
  reads the rest.
\<close>

definition orElse :: "jsval \<Rightarrow> jsval \<Rightarrow> jsval" where
  "orElse v d = (if truthy v then v else d)"

fun withDefaults :: "jsval \<Rightarrow> error + jsval" where
  "withDefaults (JObj kvs) =
     Inr (JObj (AList.update ''traits'' (orElse (js_prop (JObj kvs) ''traits'') (JObj []))
               (AList.update ''entities'' (orElse (js_prop (JObj kvs) ''entities'') (JObj []))
               (AList.update ''intents'' (orElse (js_prop (JObj kvs) ''intents'') (JArr [])) kvs))))"
| "withDefaults (JArr xs) =
     Inr (JObj [(''intents'', JArr []), (''entities'', JObj []), (''traits'', JObj [])])"
| "withDefaults JUndefined = Inl TypeError"
| "withDefaults JNull = Inl TypeError"
| "withDefaults (JBool b) = Inl TypeError"
| "withDefaults (JNum r) = Inl TypeError"
| "withDefaults (JStr s) = Inl TypeError"

text \<open>
  Lines 645 to 651 of \<^verbatim>\<open>process\<close>: the defaults, then the traits, the intents and the
  entities, each running only if nothing was thrown before it. The result is the payload
  with its defaults and the ephemeral facts, or the error.
\<close>

definition normalizePayload :: "env \<Rightarrow> jsval \<Rightarrow> IEphemeralContext \<Rightarrow> error + (jsval \<times> IEphemeralContext)" where
  "normalizePayload env raw ephemeral =
     (case withDefaults raw of
        Inl err \<Rightarrow> Inl err
      | Inr wit \<Rightarrow>
          (case processTraits env wit ephemeral of
             (e1, Some err) \<Rightarrow> Inl err
           | (e1, None) \<Rightarrow>
               (case processIntents wit e1 of
                  (e2, Some err) \<Rightarrow> Inl err
                | (e2, None) \<Rightarrow>
                    (case processEntities env wit e2 of
                       (e3, Some err) \<Rightarrow> Inl err
                     | (e3, None) \<Rightarrow> Inr (wit, e3)))))"

section \<open>The durable context, the session and the result\<close>

text \<open>
  \<^verbatim>\<open>IRobinContext\<close>. \<^verbatim>\<open>budget\<close>, \<^verbatim>\<open>currentExpenseItem\<close> and \<^verbatim>\<open>currentExpenseValue\<close> are
  assigned from the facts, so they hold what the payload held; an expense slot that is
  not set is \<open>JUndefined\<close> or \<open>None\<close>.
\<close>

record IRobinContext =
  isActive :: bool
  state :: string
  userName :: string
  lastMessageOn :: DateTime
  messageCounter :: int
  lastGreetingOn :: DateTime
  jokeCounter :: int
  lastJokeOn :: DateTime
  budget :: jsval
  currentExpenseItem :: jsval
  currentExpenseValue :: jsval
  currentExpenseIncurredOn :: "DateTime option"

definition defaultContext :: "env \<Rightarrow> IRobinContext" where
  "defaultContext env =
     \<lparr>isActive = True, state = ''init'', userName = [], lastMessageOn = now env,
      messageCounter = 0, lastGreetingOn = 0, jokeCounter = 0, lastJokeOn = 0,
      budget = JNum 500, currentExpenseItem = JUndefined, currentExpenseValue = JUndefined,
      currentExpenseIncurredOn = None\<rparr>"

record IRobinExpense =
  expense_item :: jsval
  expense_value :: jsval
  incurredOn :: DateTime

datatype RobinAction = AddExpense IRobinExpense

text \<open>
  The session holds a reference to the caller's context object: \<open>session_context\<close> is its
  address in the store of context objects. \<^verbatim>\<open>text\<close> and \<^verbatim>\<open>voice\<close> are optional.
  \<open>queryExpenses\<close> is the ledger of the caller, which answers with the expenses of an
  interval; a ledger that fails is not represented.
\<close>

record IRobinSession =
  session_text :: "string option"
  session_voice :: "nat list option"
  session_timestamp :: DateTime
  session_context :: nat
  queryExpenses :: "Interval \<Rightarrow> IRobinExpense list"

text \<open>
  A reply is a string that the message catalog makes. The catalog is not among the
  sources, and \<^verbatim>\<open>any\<close> picks one of several variants, so a reply is kept as the request
  that was made of the catalog: the key and the values to interpolate, each value as the
  expression of the program that computes it.
\<close>

datatype fmt =
    FValue jsval
  | FText string
  | FDollar jsval
  | FBalance jsval "IRobinExpense list"
  | FAffordable jsval "IRobinExpense list" jsval
  | FTotal "IRobinExpense list"
  | FDate DateTime

datatype message =
    Literal string
  | Any string "(string \<times> fmt) list"
  | ExpenseLines "IRobinExpense list"

text \<open>
  Modelled from the spec: \<^verbatim>\<open>ROBIN_MESSAGES.joke.get(index, fallback)\<close> of the message
  catalog, which is not among the sources. The spec calls it "an index-bounded variant
  with fallback" and says of the jokes that beyond the list length "a fixed done joking
  filler is shown": the entry at the index when the index is within the list, else the
  fallback.
\<close>

definition joke_get :: "string list \<Rightarrow> int \<Rightarrow> message \<Rightarrow> message" where
  "joke_get js i fallback =
     (if 0 \<le> i \<and> i < int (length js) then Literal (js ! nat i) else fallback)"

record IRobinResult =
  result_context :: nat
  result_messages :: "message list"
  result_actions :: "RobinAction list"
  result_wit :: jsval

section \<open>The rule engine\<close>

text \<open>
  \<^verbatim>\<open>RobinLogic\<close>: the fields of the class, and the store of context objects that its
  methods write through \<^verbatim>\<open>this.context\<close>. \<open>context_ref\<close> is the address that
  \<^verbatim>\<open>this.context\<close> refers to.
\<close>

record RobinLogic =
  messages :: "message list"
  actions :: "RobinAction list"
  wit :: jsval
  ephemeral :: IEphemeralContext
  context_ref :: nat
  session :: IRobinSession
  heap :: "nat \<Rightarrow> IRobinContext"

definition ctx :: "RobinLogic \<Rightarrow> IRobinContext" where
  "ctx m = heap m (context_ref m)"

definition ctx_upd :: "(IRobinContext \<Rightarrow> IRobinContext) \<Rightarrow> RobinLogic \<Rightarrow> RobinLogic" where
  "ctx_upd f m = m\<lparr>heap := (heap m)(context_ref m := f (heap m (context_ref m)))\<rparr>"

definition action :: "RobinAction \<Rightarrow> RobinLogic \<Rightarrow> RobinLogic" where
  "action a m = m\<lparr>actions := actions m @ [a]\<rparr>"

definition say :: "message \<Rightarrow> RobinLogic \<Rightarrow> RobinLogic" where
  "say msg m = m\<lparr>messages := messages m @ [msg]\<rparr>"

definition sayHi :: "RobinLogic \<Rightarrow> RobinLogic" where
  "sayHi m =
     (if userName (ctx m) \<noteq> []
      then say (Any ''personalGreeting'' [(''name'', FText (userName (ctx m)))]) m
      else say (Any ''genericGreeting'' []) m)"

definition sayWelcome :: "RobinLogic \<Rightarrow> RobinLogic" where
  "sayWelcome m = say (Any ''welcome'' []) m"

definition sayJoke :: "env \<Rightarrow> RobinLogic \<Rightarrow> RobinLogic" where
  "sayJoke env m =
     (let m1 = say (joke_get (jokes env) (jokeCounter (ctx m)) (Any ''doneJoking'' [])) m;
          m2 = ctx_upd (\<lambda>c. c\<lparr>jokeCounter := min (jokeCounter c + 1) (int (length (jokes env)))\<rparr>) m1
      in ctx_upd (\<lambda>c. c\<lparr>lastJokeOn := now env\<rparr>) m2)"

text \<open>
  \<^verbatim>\<open>dt.diffNow("minutes").minutes\<close>: the date library defines \<^verbatim>\<open>dt.diffNow(unit)\<close> as
  \<^verbatim>\<open>dt.diff(DateTime.local(), unit)\<close>, the duration from now to \<^verbatim>\<open>dt\<close>, which is \<^verbatim>\<open>dt\<close> minus
  now: negative when \<^verbatim>\<open>dt\<close> is in the past.
\<close>

definition diffNowMinutes :: "env \<Rightarrow> DateTime \<Rightarrow> real" where
  "diffNowMinutes env dt = real_of_int (dt - now env) / 60000"

definition timeout :: "env \<Rightarrow> real \<Rightarrow> RobinLogic \<Rightarrow> bool" where
  "timeout env minutes m = (diffNowMinutes env (lastMessageOn (ctx m)) > minutes)"

definition thisWeek :: "env \<Rightarrow> Interval" where
  "thisWeek env =
     fromDateTimes (startOf env (JStr ''week'') (now env)) (endOf env (JStr ''week'') (now env))"

text \<open>
  A rule returns \<^verbatim>\<open>[state]\<close> or \<^verbatim>\<open>[state, tag]\<close>, and it may have written to the messages,
  the actions and the context.
\<close>

type_synonym directive = "string \<times> string option"

type_synonym rule = "RobinLogic \<Rightarrow> directive \<times> RobinLogic"

definition init_first_interaction :: rule where
  "init_first_interaction m = ((''main!'', None), sayWelcome (sayHi m))"

definition main_request_help :: rule where
  "main_request_help m =
     (if intent (ephemeral m) \<noteq> JStr ''request_help'' then (([], None), m)
      else ((''main'', None), say (Any ''help'' []) m))"

definition main_tell_joke :: "env \<Rightarrow> rule" where
  "main_tell_joke env m =
     (if intent (ephemeral m) \<noteq> JStr ''tell_joke'' then (([], None), m)
      else ((''main'', None), sayJoke env m))"

definition main_who_are_you :: rule where
  "main_who_are_you m =
     (if intent (ephemeral m) \<noteq> JStr ''who_are_you'' then (([], None), m)
      else ((''main'', None), say (Any ''introduction'' []) m))"

definition main_are_you_bot :: rule where
  "main_are_you_bot m =
     (if intent (ephemeral m) \<noteq> JStr ''are_you_bot'' then (([], None), m)
      else ((''main'', None), say (Any ''bot'' []) m))"

definition main_delete_account :: rule where
  "main_delete_account m =
     (if intent (ephemeral m) \<noteq> JStr ''delete_account'' then (([], None), m)
      else ((''delete_account'', None), say (Any ''deleteAccountConfirmation'' []) m))"

definition main_set_budget :: rule where
  "main_set_budget m =
     (if intent (ephemeral m) \<noteq> JStr ''set_budget'' then (([], None), m)
      else ((''set_budget!'', None), m))"

definition main_query_budget :: "env \<Rightarrow> rule" where
  "main_query_budget env m =
     (if intent (ephemeral m) \<noteq> JStr ''query_budget'' then (([], None), m)
      else
        let expenses = queryExpenses (session m) (thisWeek env)
        in ((''main'', None),
            say (Any ''queryBudget''
                   [(''value'', FDollar (budget (ctx m))),
                    (''balance'', FBalance (budget (ctx m)) expenses)]) m))"

definition main_query_affordability :: "env \<Rightarrow> rule" where
  "main_query_affordability env m =
     (if intent (ephemeral m) \<noteq> JStr ''query_affordability'' then (([], None), m)
      else
        case money (ephemeral m) of
          None \<Rightarrow> ((''main'', None), say (Any ''specifyAffordabilityValue'' []) m)
        | Some mv \<Rightarrow>
            (let expenses = queryExpenses (session m) (thisWeek env)
             in ((''main'', None),
                 say (Any ''queryAffordability''
                        [(''value'', FDollar (money_value mv)),
                         (''balance'', FAffordable (budget (ctx m)) expenses (money_value mv))]) m)))"

definition main_add_expense :: rule where
  "main_add_expense m =
     (if intent (ephemeral m) \<noteq> JStr ''add_expense'' then (([], None), m)
      else
        let m1 = ctx_upd (\<lambda>c. c\<lparr>currentExpenseItem := JUndefined\<rparr>) m;
            m2 = ctx_upd (\<lambda>c. c\<lparr>currentExpenseIncurredOn := None\<rparr>) m1;
            m3 = ctx_upd (\<lambda>c. c\<lparr>currentExpenseValue := JUndefined\<rparr>) m2;
            m4 = (if \<not> truthy (item (ephemeral m3)) \<and> interval (ephemeral m3) = None
                     \<and> moment (ephemeral m3) = None \<and> money (ephemeral m3) = None
                  then say (Any ''addExpense'' []) m3 else m3)
        in ((''add_expense!'', None), m4))"

definition main_query_summary :: "env \<Rightarrow> rule" where
  "main_query_summary env m =
     (if intent (ephemeral m) \<noteq> JStr ''query_summary'' then (([], None), m)
      else
        let range =
              (case interval (ephemeral m) of
                 Some iv \<Rightarrow> interval_value iv
               | None \<Rightarrow>
                   (case moment (ephemeral m) of
                      Some mo \<Rightarrow>
                        fromDateTimes (startOf env (moment_grain mo) (moment_value mo))
                                      (endOf env (moment_grain mo) (moment_value mo))
                    | None \<Rightarrow> thisWeek env));
            expenses = queryExpenses (session m) range
        in
          if length expenses = 0 then
            ((''main'', None),
             say (Any ''noExpenses''
                    [(''start'', FDate (interval_start range)),
                     (''end'', FDate (interval_end range))]) m)
          else
            ((''main'', None),
             say (Any ''expenseTotal'' [(''value'', FTotal expenses)])
               (say (ExpenseLines expenses)
                  (say (Any ''expenseSummary''
                          [(''start'', FDate (interval_start range)),
                           (''end'', FDate (interval_end range))]) m))))"

definition main_confused :: rule where
  "main_confused m =
     (if length (messages m) = 0 then
        (if thanks (ephemeral m) then ((''main'', None), say (Any ''thanks'' []) m)
         else if greetings (ephemeral m) then ((''main'', None), say (Any ''hi'' []) m)
         else if bye (ephemeral m) then
           ((''main'', None), say (Any ''bye'' [(''name'', FText (userName (ctx m)))]) m)
         else ((''main'', None), say (Any ''confused'' []) m))
      else ((''main'', None), m))"

definition delete_account_confirmation :: "env \<Rightarrow> rule" where
  "delete_account_confirmation env m =
     (if timeout env 3 m then ((''main'', Some ''timeout''), m)
      else if intent (ephemeral m) = JStr ''feedback_positive'' then
        ((''main'', Some ''positive''),
         say (Any ''accountDeletionConfirmed'' []) (ctx_upd (\<lambda>c. c\<lparr>isActive := False\<rparr>) m))
      else if intent (ephemeral m) = JStr ''feedback_negative'' then
        ((''main'', Some ''negative''), say (Any ''accountDeletionCanceled'' []) m)
      else (([], Some ''confused''), say (Any ''confused'' []) m))"

definition set_budget_set_budget :: rule where
  "set_budget_set_budget m =
     (case money (ephemeral m) of
        None \<Rightarrow> (([], None), say (Any ''specifyBudget'' []) m)
      | Some mv \<Rightarrow>
          ((''main'', None),
           say (Any ''settingBudget'' [(''value'', FDollar (money_value mv))])
             (ctx_upd (\<lambda>c. c\<lparr>budget := money_value mv\<rparr>) m)))"

text \<open>
  The rule of state \<^verbatim>\<open>add_expense\<close> starts with three statements that fill the slots from
  the facts: the item (lines 318 to 320), the date (lines 322 to 326) and the value (lines
  328 to 330).
\<close>

definition add_expense_fill_item :: "RobinLogic \<Rightarrow> RobinLogic" where
  "add_expense_fill_item m =
     (if truthy (item (ephemeral m)) \<and> \<not> truthy (currentExpenseItem (ctx m))
      then ctx_upd (\<lambda>c. c\<lparr>currentExpenseItem := item (ephemeral m)\<rparr>) m
      else m)"

definition add_expense_fill_moment :: "RobinLogic \<Rightarrow> RobinLogic" where
  "add_expense_fill_moment m =
     (if moment (ephemeral m) \<noteq> None \<and> currentExpenseIncurredOn (ctx m) = None
      then ctx_upd (\<lambda>c. c\<lparr>currentExpenseIncurredOn :=
                             map_option moment_value (moment (ephemeral m))\<rparr>) m
      else if interval (ephemeral m) \<noteq> None \<and> currentExpenseIncurredOn (ctx m) = None
      then ctx_upd (\<lambda>c. c\<lparr>currentExpenseIncurredOn :=
                             map_option (\<lambda>iv. interval_start (interval_value iv))
                               (interval (ephemeral m))\<rparr>) m
      else m)"

definition add_expense_fill_value :: "RobinLogic \<Rightarrow> RobinLogic" where
  "add_expense_fill_value m =
     (case money (ephemeral m) of
        Some mv \<Rightarrow>
          if \<not> truthy (currentExpenseValue (ctx m))
          then ctx_upd (\<lambda>c. c\<lparr>currentExpenseValue := money_value mv\<rparr>) m
          else m
      | None \<Rightarrow> m)"

definition add_expense_add_expense :: rule where
  "add_expense_add_expense m =
     (let m3 = add_expense_fill_value (add_expense_fill_moment (add_expense_fill_item m))
      in
        if \<not> truthy (currentExpenseItem (ctx m3)) then ((''specify_expense_item!'', None), m3)
        else
          case currentExpenseIncurredOn (ctx m3) of
            None \<Rightarrow> ((''specify_expense_moment!'', None), m3)
          | Some d \<Rightarrow>
              if \<not> truthy (currentExpenseValue (ctx m3))
              then ((''specify_expense_value!'', None), m3)
              else
                ((''main'', Some ''expense_added''),
                 say (Any ''expenseCompleted''
                        [(''item'', FValue (currentExpenseItem (ctx m3))),
                         (''value'', FDollar (currentExpenseValue (ctx m3))),
                         (''moment'', FDate d)])
                   (action (AddExpense \<lparr>expense_item = currentExpenseItem (ctx m3),
                                        expense_value = currentExpenseValue (ctx m3),
                                        incurredOn = d\<rparr>) m3)))"

definition specify_expense_item_rule :: rule where
  "specify_expense_item_rule m =
     (if \<not> truthy (item (ephemeral m)) then (([], None), say (Any ''specifyExpenseItem'' []) m)
      else ((''add_expense!'', Some ''item_specified''),
            ctx_upd (\<lambda>c. c\<lparr>currentExpenseItem := item (ephemeral m)\<rparr>) m))"

definition specify_expense_moment_rule :: rule where
  "specify_expense_moment_rule m =
     (case moment (ephemeral m) of
        Some mo \<Rightarrow>
          ((''add_expense!'', Some ''moment_specified''),
           ctx_upd (\<lambda>c. c\<lparr>currentExpenseIncurredOn := Some (moment_value mo)\<rparr>) m)
      | None \<Rightarrow>
          (case interval (ephemeral m) of
             None \<Rightarrow> (([], None), say (Any ''specifyExpenseMoment'' []) m)
           | Some iv \<Rightarrow>
               ((''add_expense!'', Some ''moment_specified''),
                ctx_upd (\<lambda>c. c\<lparr>currentExpenseIncurredOn :=
                                  Some (interval_start (interval_value iv))\<rparr>) m)))"

definition specify_expense_value_rule :: rule where
  "specify_expense_value_rule m =
     (case money (ephemeral m) of
        None \<Rightarrow> (([], None), say (Any ''specifyExpenseValue'' []) m)
      | Some mv \<Rightarrow>
          ((''add_expense!'', Some ''value_specified''),
           ctx_upd (\<lambda>c. c\<lparr>currentExpenseValue := money_value mv\<rparr>) m))"

text \<open>The table \<^verbatim>\<open>states\<close>: for each state its rules, in the order they are tried.\<close>

definition states :: "env \<Rightarrow> (string \<times> (string \<times> rule) list) list" where
  "states env =
     [(''init'', [(''first_interaction'', init_first_interaction)]),
      (''main'',
         [(''request_help'', main_request_help),
          (''tell_joke'', main_tell_joke env),
          (''who_are_you'', main_who_are_you),
          (''are_you_bot'', main_are_you_bot),
          (''delete_account'', main_delete_account),
          (''set_budget'', main_set_budget),
          (''query_budget'', main_query_budget env),
          (''query_affordability'', main_query_affordability env),
          (''add_expense'', main_add_expense),
          (''query_summary'', main_query_summary env),
          (''confused'', main_confused)]),
      (''delete_account'', [(''confirmation'', delete_account_confirmation env)]),
      (''set_budget'', [(''set_budget'', set_budget_set_budget)]),
      (''add_expense'', [(''add_expense'', add_expense_add_expense)]),
      (''specify_expense_item'', [(''specify_expense_item'', specify_expense_item_rule)]),
      (''specify_expense_moment'', [(''specify_expense_moment'', specify_expense_moment_rule)]),
      (''specify_expense_value'', [(''specify_expense_value'', specify_expense_value_rule)])]"

text \<open>
  The names that the table object inherits: the members of \<^verbatim>\<open>Object.prototype\<close>. Each is a
  function, or the prototype object itself for \<^verbatim>\<open>__proto__\<close>.
\<close>

definition inheritedNames :: "string list" where
  "inheritedNames =
     [''constructor'', ''__defineGetter__'', ''__defineSetter__'', ''hasOwnProperty'',
      ''__lookupGetter__'', ''__lookupSetter__'', ''isPrototypeOf'', ''propertyIsEnumerable'',
      ''toString'', ''valueOf'', ''__proto__'', ''toLocaleString'']"

text \<open>
  \<^verbatim>\<open>const transitions = this.states[state] || this.states["init"]\<close> and the start of the
  \<^verbatim>\<open>for\<close> loop over it. A key of the table gives its rule list. An inherited name gives a
  function or an object, which counts as true and is not iterable: the loop throws a
  TypeError. Any other name gives undefined, and \<^verbatim>\<open>init\<close>'s rule list is taken.
\<close>

definition transitions :: "env \<Rightarrow> string \<Rightarrow> error + (string \<times> rule) list" where
  "transitions env st =
     (case map_of (states env) st of
        Some ts \<Rightarrow> Inr ts
      | None \<Rightarrow>
          if st \<in> set inheritedNames then Inl TypeError
          else Inr [(''first_interaction'', init_first_interaction)])"

definition endsWithBang :: "string \<Rightarrow> bool" where
  "endsWithBang s = (s \<noteq> [] \<and> last s = CHR ''!'')"

text \<open>
  \<^verbatim>\<open>execute\<close>. \<open>tryRules\<close> is its \<^verbatim>\<open>for\<close> loop over the transitions that are left, and
  \<open>execute\<close> the method. The recursion of \<^verbatim>\<open>execute\<close> into itself on a directive that
  ends with \<^verbatim>\<open>!\<close> has no bound in the program: here each such step takes one unit of
  fuel, and \<open>None\<close> says that the fuel did not suffice. A run that gives \<open>None\<close> for every
  amount of fuel is a call that never returns. A call that returns gives \<open>Inr\<close> of the state
  and the engine; a call that throws gives \<open>Inl\<close> of the error and the engine as the throw
  left it.
\<close>

fun tryRules ::
  "env \<Rightarrow> nat \<Rightarrow> string \<Rightarrow> (string \<times> rule) list \<Rightarrow> RobinLogic
     \<Rightarrow> (error \<times> RobinLogic + string \<times> RobinLogic) option"
where
  "tryRules env fuel st [] m = Some (Inr (st, m))"
| "tryRules env fuel st (t # ts) m =
     (case snd t m of
        (next, m') \<Rightarrow>
          if endsWithBang (fst next) then
            (case fuel of
               0 \<Rightarrow> None
             | Suc k \<Rightarrow>
                 (case transitions env (butlast (fst next)) of
                    Inl err \<Rightarrow> Some (Inl (err, m'))
                  | Inr ts' \<Rightarrow> tryRules env k (butlast (fst next)) ts' m'))
          else if fst next \<noteq> [] then Some (Inr (fst next, m'))
          else tryRules env fuel st ts m')"

definition execute ::
  "env \<Rightarrow> nat \<Rightarrow> string \<Rightarrow> RobinLogic \<Rightarrow> (error \<times> RobinLogic + string \<times> RobinLogic) option"
where
  "execute env fuel st m =
     (case transitions env st of
        Inl err \<Rightarrow> Some (Inl (err, m))
      | Inr ts \<Rightarrow> tryRules env fuel st ts m)"

text \<open>
  \<^verbatim>\<open>transition\<close>: one turn of the engine. It returns the result and the engine as it ends,
  or passes on what \<^verbatim>\<open>execute\<close> threw.
\<close>

definition transition ::
  "env \<Rightarrow> nat \<Rightarrow> RobinLogic \<Rightarrow> (error \<times> RobinLogic + IRobinResult \<times> RobinLogic) option"
where
  "transition env fuel m =
     (let m0 = m\<lparr>messages := []\<rparr>
      in case execute env fuel (state (ctx m0)) m0 of
           None \<Rightarrow> None
         | Some (Inl thrown) \<Rightarrow> Some (Inl thrown)
         | Some (Inr (st, m1)) \<Rightarrow>
             (let m2 = ctx_upd (\<lambda>c. c\<lparr>state := st\<rparr>) m1;
                  m3 = ctx_upd (\<lambda>c. c\<lparr>messageCounter := messageCounter c + 1\<rparr>) m2;
                  m4 = ctx_upd (\<lambda>c. c\<lparr>lastMessageOn := now env\<rparr>) m3
              in Some (Inr (\<lparr>result_context = context_ref m4, result_messages = messages m4,
                              result_actions = actions m4, result_wit = wit m4\<rparr>, m4))))"

section \<open>The session orchestrator\<close>

text \<open>
  \<^verbatim>\<open>queryWit\<close>: the text if it is there and not empty, else the voice, else the usage
  error. \<^verbatim>\<open>queryWitText\<close> sends the first 280 characters.
\<close>

definition queryWit :: "env \<Rightarrow> IRobinSession \<Rightarrow> error + jsval" where
  "queryWit env s =
     (if session_text s \<noteq> None \<and> session_text s \<noteq> Some []
      then witText env (take 280 (the (session_text s))) (session_timestamp s)
      else
        case session_voice s of
          Some v \<Rightarrow> witVoice env v (session_timestamp s)
        | None \<Rightarrow> Inl UsageError)"

text \<open>
  The store of context objects: \<open>cells\<close> at the addresses below \<open>used\<close> are the objects
  that exist. \<^verbatim>\<open>Object.assign({}, session.context)\<close> makes a new object at the next free
  address and copies the fields of the caller's object into it.
\<close>

record store =
  cells :: "nat \<Rightarrow> IRobinContext"
  used :: nat

definition copyContext :: "store \<Rightarrow> nat \<Rightarrow> nat \<times> store" where
  "copyContext s a = (used s, s\<lparr>cells := (cells s)(used s := cells s a), used := Suc (used s)\<rparr>)"

text \<open>
  \<^verbatim>\<open>process\<close>: the result or the error that is thrown to the caller, and the store as the
  call leaves it; \<open>None\<close> when the fuel did not suffice for the engine.
\<close>

definition process ::
  "env \<Rightarrow> nat \<Rightarrow> store \<Rightarrow> IRobinSession \<Rightarrow> ((error + IRobinResult) \<times> store) option" where
  "process env fuel s sess =
     (case copyContext s (session_context sess) of
        (a, s1) \<Rightarrow>
          (case queryWit env sess of
             Inl err \<Rightarrow> Some (Inl err, s1)
           | Inr raw \<Rightarrow>
               (case normalizePayload env raw emptyEphemeral of
                  Inl err \<Rightarrow> Some (Inl err, s1)
                | Inr (w, eph) \<Rightarrow>
                    (case transition env fuel
                            \<lparr>messages = [], actions = [], wit = w, ephemeral = eph,
                             context_ref = a, session = sess, heap = cells s1\<rparr> of
                       None \<Rightarrow> None
                     | Some (Inl (err, m')) \<Rightarrow> Some (Inl err, s1\<lparr>cells := heap m'\<rparr>)
                     | Some (Inr (r, m')) \<Rightarrow> Some (Inr r, s1\<lparr>cells := heap m'\<rparr>)))))"

section \<open>Inputs and shapes that the properties speak about\<close>

text \<open>An environment whose clock stands at ten minutes past the epoch.\<close>

definition example_env :: env where
  "example_env =
     \<lparr>now = 600000, fromISO = (\<lambda>v. 0), startOf = (\<lambda>u t. t), endOf = (\<lambda>u t. t),
      coerceGt = (\<lambda>a b. False), jokes = [''knock knock'', ''why did the chicken''],
      witText = (\<lambda>q t. Inr (JObj [])), witVoice = (\<lambda>q t. Inr (JObj []))\<rparr>"













text \<open>A payload with one date/time entity of type \<^verbatim>\<open>interval\<close>, with its two ends.\<close>

definition interval_payload :: jsval where
  "interval_payload =
     JObj [(''intents'', JArr []),
           (''entities'',
            JObj [(''wit$datetime:datetime'',
                   JArr [JObj [(''name'', JStr ''wit$datetime''),
                               (''type'', JStr ''interval''),
                               (''grain'', JStr ''day''),
                               (''from'', JStr ''2020-06-01T00:00:00.000-07:00''),
                               (''to'', JStr ''2020-06-08T00:00:00.000-07:00'')]])]),
           (''traits'', JObj [])]"

text \<open>
  An engine at the start of a turn: nothing said yet, the default context at every address,
  the context of the engine at address 1 and the caller's at address 0, no expenses in the
  ledger.
\<close>

definition example_session :: IRobinSession where
  "example_session =
     \<lparr>session_text = Some ''hello'', session_voice = None, session_timestamp = 600000,
      session_context = 0, queryExpenses = (\<lambda>i. [])\<rparr>"

definition example_logic :: "IRobinContext \<Rightarrow> IEphemeralContext \<Rightarrow> RobinLogic" where
  "example_logic c e =
     \<lparr>messages = [], actions = [], wit = JObj [], ephemeral = e, context_ref = 1,
      session = example_session, heap = (\<lambda>a. c)\<rparr>"

text \<open>
  A turn in the confirmation state of \<^verbatim>\<open>delete_account\<close>, five minutes after the last message
  (the clock of \<open>example_env\<close> stands at 600000 ms), with the user confirming.
\<close>

definition stale_confirmation :: RobinLogic where
  "stale_confirmation =
     example_logic
       ((defaultContext example_env)\<lparr>state := ''delete_account'', lastMessageOn := 300000\<rparr>)
       (emptyEphemeral\<lparr>intent := JStr ''feedback_positive''\<rparr>)"

text \<open>A turn in state \<^verbatim>\<open>set_budget\<close> that brings no money fact.\<close>

definition budget_without_money :: RobinLogic where
  "budget_without_money =
     example_logic ((defaultContext example_env)\<lparr>state := ''set_budget''\<rparr>) emptyEphemeral"

text \<open>
  Every rule of the list declines: each returns the empty directive, on the engine as the
  rules before it left it.
\<close>

fun allDecline :: "(string \<times> rule) list \<Rightarrow> RobinLogic \<Rightarrow> bool" where
  "allDecline [] m = True"
| "allDecline (t # ts) m = (fst (fst (snd t m)) = [] \<and> allDecline ts (snd (snd t m)))"

text \<open>The prompt that the rule of a state says when it declines.\<close>

definition reprompt :: "string \<Rightarrow> message" where
  "reprompt st =
     (if st = ''delete_account'' then Any ''confused'' []
      else if st = ''set_budget'' then Any ''specifyBudget'' []
      else if st = ''specify_expense_item'' then Any ''specifyExpenseItem'' []
      else if st = ''specify_expense_moment'' then Any ''specifyExpenseMoment'' []
      else Any ''specifyExpenseValue'' [])"

text \<open>A turn in a state whose name the table object inherits.\<close>

definition inherited_state_turn :: RobinLogic where
  "inherited_state_turn =
     example_logic ((defaultContext example_env)\<lparr>state := ''toString''\<rparr>) emptyEphemeral"

text \<open>
  The facts of "I spent $0 on coffee today": intent \<^verbatim>\<open>add_expense\<close>, an item, a moment and
  a money fact whose value is 0; and a turn in state \<^verbatim>\<open>main\<close> with these facts.
\<close>

definition zero_amount_facts :: IEphemeralContext where
  "zero_amount_facts =
     emptyEphemeral
       \<lparr>intent := JStr ''add_expense'', item := JStr ''coffee'',
        money := Some \<lparr>money_body = JStr ''$0'', money_value = JNum 0\<rparr>,
        moment := Some \<lparr>moment_grain = JStr ''day'', moment_value = 540000\<rparr>\<rparr>"

definition zero_amount_turn :: RobinLogic where
  "zero_amount_turn =
     example_logic ((defaultContext example_env)\<lparr>state := ''main''\<rparr>) zero_amount_facts"

text \<open>
  The same sentence as the NLU service would report it, a session that carries it, an
  environment whose service answers with it, and a store whose only context is in state
  \<^verbatim>\<open>main\<close>.
\<close>

definition zero_amount_payload :: jsval where
  "zero_amount_payload =
     JObj [(''intents'', JArr [JObj [(''name'', JStr ''add_expense''), (''confidence'', JNum 0.99)]]),
           (''entities'',
            JObj [(''item:item'',
                   JArr [JObj [(''name'', JStr ''item''), (''type'', JStr ''value''),
                               (''body'', JStr ''coffee''), (''value'', JStr ''coffee'')]]),
                  (''wit$amount_of_money:amount_of_money'',
                   JArr [JObj [(''name'', JStr ''wit$amount_of_money''), (''type'', JStr ''value''),
                               (''body'', JStr ''$0''), (''value'', JNum 0)]]),
                  (''wit$datetime:datetime'',
                   JArr [JObj [(''name'', JStr ''wit$datetime''), (''type'', JStr ''value''),
                               (''grain'', JStr ''day''),
                               (''value'', JStr ''2020-06-12T00:00:00.000-07:00'')]])]),
           (''traits'', JObj [])]"

definition zero_amount_session :: IRobinSession where
  "zero_amount_session = example_session\<lparr>session_text := Some ''I spent $0 on coffee today''\<rparr>"

definition zero_amount_env :: env where
  "zero_amount_env = example_env\<lparr>witText := (\<lambda>q t. Inr zero_amount_payload)\<rparr>"

definition main_store :: store where
  "main_store = \<lparr>cells = (\<lambda>a. (defaultContext example_env)\<lparr>state := ''main''\<rparr>), used = 1\<rparr>"

text \<open>
  A conversation: the caller hands the engine of each turn, with its context as the turn
  left it, new facts and an empty action list, and collects the results; it ends with the
  first turn that throws.
\<close>

fun conversation ::
  "env \<Rightarrow> nat \<Rightarrow> IEphemeralContext list \<Rightarrow> RobinLogic
     \<Rightarrow> (error \<times> RobinLogic + IRobinResult list \<times> RobinLogic) option"
where
  "conversation env fuel [] m = Some (Inr ([], m))"
| "conversation env fuel (e # es) m =
     (case transition env fuel (m\<lparr>ephemeral := e, actions := []\<rparr>) of
        None \<Rightarrow> None
      | Some (Inl thrown) \<Rightarrow> Some (Inl thrown)
      | Some (Inr (r, m1)) \<Rightarrow>
          (case conversation env fuel es m1 of
             None \<Rightarrow> None
           | Some (Inl thrown) \<Rightarrow> Some (Inl thrown)
           | Some (Inr (rs, m2)) \<Rightarrow> Some (Inr (r # rs, m2))))"

text \<open>The facts of a request for a joke, and an engine in state \<^verbatim>\<open>main\<close> to tell them to.\<close>

definition joke_facts :: IEphemeralContext where
  "joke_facts = emptyEphemeral\<lparr>intent := JStr ''tell_joke''\<rparr>"

definition joke_listener :: RobinLogic where
  "joke_listener = example_logic ((defaultContext example_env)\<lparr>state := ''main''\<rparr>) emptyEphemeral"

text \<open>A session that carries neither text nor voice.\<close>

definition silent_session :: IRobinSession where
  "silent_session = example_session\<lparr>session_text := None\<rparr>"


section \<open>Normalization\<close>

lemma truthy_prop_not_nullish: "truthy (js_prop v k) \<Longrightarrow> \<not> nullish v"
  by (cases v) simp_all


lemma datetime_value_sets_moment:
  assumes "js_prop entity ''name'' = JStr ''wit$datetime''"
      and "js_prop entity ''type'' = JStr ''value''"
  shows "processEntity env entity e =
           e\<lparr>moment := Some \<lparr>moment_grain = js_prop entity ''grain'',
                               moment_value = fromISO env (js_prop entity ''value'')\<rparr>\<rparr>"
  using assms by (simp add: processEntity_def)

lemma datetime_interval_needs_typeCheck:
  assumes "js_prop entity ''name'' = JStr ''wit$datetime''"
      and "js_prop entity ''type'' = JStr ''interval''"
  shows "processEntity env entity e =
           (if js_prop entity ''typeCheck'' = JStr ''interval''
            then e\<lparr>interval := Some \<lparr>interval_grain = js_prop entity ''grain'',
                                       interval_value =
                                         fromDateTimes (fromISO env (js_prop entity ''from''))
                                                       (fromISO env (js_prop entity ''to''))\<rparr>\<rparr>
            else e)"
  using assms by (simp add: processEntity_def)

text \<open>
  C3. A date/time entity of type \<^verbatim>\<open>value\<close> sets the moment fact, and one of type
  \<^verbatim>\<open>interval\<close> with its two ends is to set the interval fact. The program looks for the
  interval marker in a property \<^verbatim>\<open>typeCheck\<close> and not in \<^verbatim>\<open>type\<close>: on a payload whose only
  entity is a date/time entity of type \<^verbatim>\<open>interval\<close>, \<^verbatim>\<open>processEntities\<close> returns without an
  error and has set no fact at all, the interval fact included.
\<close>

theorem interval_entity_not_recognized:
  "processEntities env interval_payload emptyEphemeral = (emptyEphemeral, None)
   \<and> interval (fst (processEntities env interval_payload emptyEphemeral)) = None"
  by (simp add: interval_payload_def processEntities_def processEntity_def emptyEphemeral_def)


lemma js_gt_undefined: "a = JUndefined \<or> b = JUndefined \<Longrightarrow> \<not> js_gt coerce a b"
  by (cases "toNumber a") auto

lemma processTraits_unread_confidence:
  assumes "truthy (js_prop (js_prop payload ''traits'') ''wit$greetings'')"
      and "truthy (js_prop (js_prop payload ''traits'') ''wit$bye'')"
      and "js_prop (js_prop (js_prop payload ''traits'') ''wit$greetings'') ''confidence'' = JUndefined
           \<or> js_prop (js_prop (js_prop payload ''traits'') ''wit$bye'') ''confidence'' = JUndefined"
  shows "\<not> greetings (fst (processTraits env payload e))
       \<and> bye (fst (processTraits env payload e))"
proof -
  from assms(1) have t: "\<not> nullish (js_prop payload ''traits'')"
    by (rule truthy_prop_not_nullish)
  have w: "\<not> nullish payload"
    using t by (cases payload) simp_all
  show ?thesis
    using assms(1,2) t w js_gt_undefined [OF assms(3), of "coerceGt env"]
    by (simp add: processTraits_def Let_def del: js_gt.simps js_prop.simps)
qed



















section \<open>The rule engine\<close>

lemma ctx_ctx_upd [simp]: "ctx (ctx_upd f m) = f (ctx m)"
  by (simp add: ctx_def ctx_upd_def)

lemma ctx_say [simp]: "ctx (say p m) = ctx m"
  by (simp add: ctx_def say_def)

lemma ctx_action [simp]: "ctx (action a m) = ctx m"
  by (simp add: ctx_def action_def)

lemma ephemeral_upd [simp]:
  "ephemeral (ctx_upd f m) = ephemeral m"
  "ephemeral (say p m) = ephemeral m"
  "ephemeral (action a m) = ephemeral m"
  by (simp_all add: ctx_upd_def say_def action_def)

lemma messages_upd [simp]:
  "messages (ctx_upd f m) = messages m"
  "messages (say p m) = messages m @ [p]"
  "messages (action a m) = messages m"
  by (simp_all add: ctx_upd_def say_def action_def)

lemma actions_upd [simp]:
  "actions (ctx_upd f m) = actions m"
  "actions (say p m) = actions m"
  "actions (action a m) = actions m @ [a]"
  by (simp_all add: ctx_upd_def say_def action_def)

lemma session_upd [simp]:
  "session (ctx_upd f m) = session m"
  "session (say p m) = session m"
  "session (action a m) = session m"
  by (simp_all add: ctx_upd_def say_def action_def)

lemma wit_upd [simp]:
  "wit (ctx_upd f m) = wit m"
  "wit (say p m) = wit m"
  "wit (action a m) = wit m"
  by (simp_all add: ctx_upd_def say_def action_def)

lemma context_ref_upd [simp]:
  "context_ref (ctx_upd f m) = context_ref m"
  "context_ref (say p m) = context_ref m"
  "context_ref (action a m) = context_ref m"
  by (simp_all add: ctx_upd_def say_def action_def)

lemma ctx_example_logic [simp]: "ctx (example_logic c e) = c"
  by (simp add: ctx_def example_logic_def)

lemma ephemeral_example_logic [simp]: "ephemeral (example_logic c e) = e"
  by (simp add: example_logic_def)

lemma heap_upd [simp]:
  "a \<noteq> context_ref m \<Longrightarrow> heap (ctx_upd f m) a = heap m a"
  "heap (say p m) = heap m"
  "heap (action x m) = heap m"
  by (simp_all add: ctx_upd_def say_def action_def)

lemma fill_item_frame [simp]:
  "ephemeral (add_expense_fill_item m) = ephemeral m"
  "messages (add_expense_fill_item m) = messages m"
  "actions (add_expense_fill_item m) = actions m"
  "context_ref (add_expense_fill_item m) = context_ref m"
  "a \<noteq> context_ref m \<Longrightarrow> heap (add_expense_fill_item m) a = heap m a"
  by (simp_all add: add_expense_fill_item_def)

lemma fill_moment_frame [simp]:
  "ephemeral (add_expense_fill_moment m) = ephemeral m"
  "messages (add_expense_fill_moment m) = messages m"
  "actions (add_expense_fill_moment m) = actions m"
  "context_ref (add_expense_fill_moment m) = context_ref m"
  "a \<noteq> context_ref m \<Longrightarrow> heap (add_expense_fill_moment m) a = heap m a"
  by (simp_all add: add_expense_fill_moment_def)

lemma fill_value_frame [simp]:
  "ephemeral (add_expense_fill_value m) = ephemeral m"
  "messages (add_expense_fill_value m) = messages m"
  "actions (add_expense_fill_value m) = actions m"
  "context_ref (add_expense_fill_value m) = context_ref m"
  "a \<noteq> context_ref m \<Longrightarrow> heap (add_expense_fill_value m) a = heap m a"
  by (simp_all add: add_expense_fill_value_def split: option.splits)

lemma ctx_fill_item:
  "ctx (add_expense_fill_item m) =
     (if truthy (item (ephemeral m)) \<and> \<not> truthy (currentExpenseItem (ctx m))
      then (ctx m)\<lparr>currentExpenseItem := item (ephemeral m)\<rparr> else ctx m)"
  by (simp add: add_expense_fill_item_def)

lemma ctx_fill_moment:
  "ctx (add_expense_fill_moment m) =
     (if moment (ephemeral m) \<noteq> None \<and> currentExpenseIncurredOn (ctx m) = None
      then (ctx m)\<lparr>currentExpenseIncurredOn := map_option moment_value (moment (ephemeral m))\<rparr>
      else if interval (ephemeral m) \<noteq> None \<and> currentExpenseIncurredOn (ctx m) = None
      then (ctx m)\<lparr>currentExpenseIncurredOn :=
                      map_option (\<lambda>iv. interval_start (interval_value iv)) (interval (ephemeral m))\<rparr>
      else ctx m)"
  by (simp add: add_expense_fill_moment_def)

lemma ctx_fill_value:
  "ctx (add_expense_fill_value m) =
     (case money (ephemeral m) of
        Some mv \<Rightarrow>
          if \<not> truthy (currentExpenseValue (ctx m))
          then (ctx m)\<lparr>currentExpenseValue := money_value mv\<rparr> else ctx m
      | None \<Rightarrow> ctx m)"
  by (simp add: add_expense_fill_value_def split: option.splits)

lemma transitions_delete_account:
  "transitions env ''delete_account'' = Inr [(''confirmation'', delete_account_confirmation env)]"
  by (simp add: transitions_def states_def)

lemma timeout_false_in_past: "lastMessageOn (ctx m) \<le> now env \<Longrightarrow> \<not> timeout env 3 m"
  by (simp add: timeout_def diffNowMinutes_def)

text \<open>
  C1. In the confirmation state of \<^verbatim>\<open>delete_account\<close>, a last message more than 3 minutes
  old is to abort the turn back to \<^verbatim>\<open>main\<close> and leave \<^verbatim>\<open>isActive\<close> as it is. The guard
  \<^verbatim>\<open>timeout(3)\<close> compares \<^verbatim>\<open>lastMessageOn.diffNow("minutes").minutes\<close> with 3, and that
  difference is negative for a time in the past: with the last message five minutes old
  and the user confirming, the guard is false, the account is deactivated and the
  confirmation is acknowledged.
\<close>

theorem stale_confirmation_not_aborted:
  "lastMessageOn (ctx stale_confirmation) + 3 * 60000 < now example_env
   \<and> isActive (ctx stale_confirmation)
   \<and> \<not> timeout example_env 3 stale_confirmation
   \<and> (case transition example_env 0 stale_confirmation of
         None \<Rightarrow> False
       | Some (Inl thrown) \<Rightarrow> False
       | Some (Inr (r, m')) \<Rightarrow>
           state (ctx m') = ''main'' \<and> \<not> isActive (ctx m')
           \<and> result_messages r = [Any ''accountDeletionConfirmed'' []])"
  by (simp add: stale_confirmation_def example_env_def defaultContext_def emptyEphemeral_def
        timeout_def diffNowMinutes_def transition_def execute_def transitions_delete_account
        delete_account_confirmation_def endsWithBang_def example_logic_def Let_def ctx_def ctx_upd_def say_def)


lemma transitions_init:
  "transitions env ''init'' = Inr [(''first_interaction'', init_first_interaction)]"
  by (simp add: transitions_def states_def)

lemma transitions_main:
  "transitions env ''main'' =
     Inr [(''request_help'', main_request_help),
      (''tell_joke'', main_tell_joke env),
      (''who_are_you'', main_who_are_you),
      (''are_you_bot'', main_are_you_bot),
      (''delete_account'', main_delete_account),
      (''set_budget'', main_set_budget),
      (''query_budget'', main_query_budget env),
      (''query_affordability'', main_query_affordability env),
      (''add_expense'', main_add_expense),
      (''query_summary'', main_query_summary env),
      (''confused'', main_confused)]"
  by (simp add: transitions_def states_def)

lemma transitions_set_budget:
  "transitions env ''set_budget'' = Inr [(''set_budget'', set_budget_set_budget)]"
  by (simp add: transitions_def states_def)

lemma transitions_add_expense:
  "transitions env ''add_expense'' = Inr [(''add_expense'', add_expense_add_expense)]"
  by (simp add: transitions_def states_def)

lemma transitions_specify_expense_item:
  "transitions env ''specify_expense_item'' = Inr [(''specify_expense_item'', specify_expense_item_rule)]"
  by (simp add: transitions_def states_def)

lemma transitions_specify_expense_moment:
  "transitions env ''specify_expense_moment'' =
     Inr [(''specify_expense_moment'', specify_expense_moment_rule)]"
  by (simp add: transitions_def states_def)

lemma transitions_specify_expense_value:
  "transitions env ''specify_expense_value'' =
     Inr [(''specify_expense_value'', specify_expense_value_rule)]"
  by (simp add: transitions_def states_def)

lemma transitions_inherited:
  assumes "st \<in> set inheritedNames"
  shows "transitions env st = Inl TypeError"
  using assms by (auto simp add: transitions_def states_def inheritedNames_def)

lemma transitions_unknown:
  assumes "st \<noteq> ''init''" "st \<noteq> ''main''" "st \<noteq> ''delete_account''" "st \<noteq> ''set_budget''"
    "st \<noteq> ''add_expense''" "st \<noteq> ''specify_expense_item''" "st \<noteq> ''specify_expense_moment''"
    "st \<noteq> ''specify_expense_value''" "st \<notin> set inheritedNames"
  shows "transitions env st = Inr [(''first_interaction'', init_first_interaction)]"
  using assms by (simp add: transitions_def states_def)

lemma state_cases:
  obtains "st = ''init''" | "st = ''main''" | "st = ''delete_account''" | "st = ''set_budget''"
    | "st = ''add_expense''" | "st = ''specify_expense_item''" | "st = ''specify_expense_moment''"
    | "st = ''specify_expense_value''"
    | "transitions env st = Inl TypeError"
    | "transitions env st = Inr [(''first_interaction'', init_first_interaction)]"
  using transitions_unknown [of st env] transitions_inherited [of st env] by blast

lemma execute_inherited_name_throws:
  "st \<in> set inheritedNames \<Longrightarrow> execute env fuel st m = Some (Inl (TypeError, m))"
  by (simp add: execute_def transitions_inherited)

lemma execute_single_decline:
  assumes "transitions env st = Inr [(n, r)]" and "r m = (([], tag), say p m)"
  shows "execute env fuel st m = Some (Inr (st, say p m))"
  using assms by (simp add: execute_def endsWithBang_def)

lemma init_never_declines: "fst (fst (init_first_interaction m)) \<noteq> []"
  by (simp add: init_first_interaction_def)

lemma confused_never_declines: "fst (fst (main_confused m)) \<noteq> []"
  by (simp add: main_confused_def)

lemma confirmation_declines:
  "fst (fst (delete_account_confirmation env m)) = [] \<Longrightarrow>
   delete_account_confirmation env m = (([], Some ''confused''), say (Any ''confused'' []) m)"
  by (simp add: delete_account_confirmation_def split: if_splits)

lemma set_budget_declines:
  "fst (fst (set_budget_set_budget m)) = [] \<Longrightarrow>
   set_budget_set_budget m = (([], None), say (Any ''specifyBudget'' []) m)"
  by (simp add: set_budget_set_budget_def split: option.splits)

lemma add_expense_never_declines: "fst (fst (add_expense_add_expense m)) \<noteq> []"
  by (simp add: add_expense_add_expense_def Let_def split: option.splits)

lemma specify_item_declines:
  "fst (fst (specify_expense_item_rule m)) = [] \<Longrightarrow>
   specify_expense_item_rule m = (([], None), say (Any ''specifyExpenseItem'' []) m)"
  by (simp add: specify_expense_item_rule_def split: if_splits)

lemma specify_moment_declines:
  "fst (fst (specify_expense_moment_rule m)) = [] \<Longrightarrow>
   specify_expense_moment_rule m = (([], None), say (Any ''specifyExpenseMoment'' []) m)"
  by (simp add: specify_expense_moment_rule_def split: option.splits)

lemma specify_value_declines:
  "fst (fst (specify_expense_value_rule m)) = [] \<Longrightarrow>
   specify_expense_value_rule m = (([], None), say (Any ''specifyExpenseValue'' []) m)"
  by (simp add: specify_expense_value_rule_def split: option.splits)

text \<open>
  C5, amended. For every state that has a rule list (a key of the table, or a name that
  is no key and that the table object does not inherit, which gets the list of \<^verbatim>\<open>init\<close>):
  when every rule of the list returns the empty directive, \<^verbatim>\<open>execute\<close> returns the state
  it was given, without an error and with any amount of fuel. The state is then one of
  \<^verbatim>\<open>delete_account\<close>, \<^verbatim>\<open>set_budget\<close> and the three \<^verbatim>\<open>specify_expense\<close> states; the context and
  the actions are as before, and exactly one message has been added, the prompt of that
  state: \<^verbatim>\<open>confused\<close>, \<^verbatim>\<open>specifyBudget\<close>, \<^verbatim>\<open>specifyExpenseItem\<close>, \<^verbatim>\<open>specifyExpenseMoment\<close> or
  \<^verbatim>\<open>specifyExpenseValue\<close>.
\<close>

theorem execute_all_decline:
  assumes "transitions env st = Inr ts" and "allDecline ts m"
  shows "st \<in> set [''delete_account'', ''set_budget'', ''specify_expense_item'',
                    ''specify_expense_moment'', ''specify_expense_value'']
       \<and> execute env fuel st m = Some (Inr (st, say (reprompt st) m))"
proof (cases rule: state_cases [where st = st and env = env])
  case 1
  with assms show ?thesis
    using init_never_declines [of m] by (auto simp add: transitions_init)
next
  case 2
  with assms show ?thesis
    using confused_never_declines by (auto simp add: transitions_main)
next
  case 3
  with assms have "fst (fst (delete_account_confirmation env m)) = []"
    by (auto simp add: transitions_delete_account)
  from execute_single_decline [OF transitions_delete_account confirmation_declines [OF this]]
  show ?thesis
    unfolding 3 by (simp add: reprompt_def)
next
  case 4
  with assms have "fst (fst (set_budget_set_budget m)) = []"
    by (auto simp add: transitions_set_budget)
  from execute_single_decline [OF transitions_set_budget set_budget_declines [OF this]]
  show ?thesis
    unfolding 4 by (simp add: reprompt_def)
next
  case 5
  with assms show ?thesis
    using add_expense_never_declines [of m] by (auto simp add: transitions_add_expense)
next
  case 6
  with assms have "fst (fst (specify_expense_item_rule m)) = []"
    by (auto simp add: transitions_specify_expense_item)
  from execute_single_decline [OF transitions_specify_expense_item specify_item_declines [OF this]]
  show ?thesis
    unfolding 6 by (simp add: reprompt_def)
next
  case 7
  with assms have "fst (fst (specify_expense_moment_rule m)) = []"
    by (auto simp add: transitions_specify_expense_moment)
  from execute_single_decline [OF transitions_specify_expense_moment specify_moment_declines [OF this]]
  show ?thesis
    unfolding 7 by (simp add: reprompt_def)
next
  case 8
  with assms have "fst (fst (specify_expense_value_rule m)) = []"
    by (auto simp add: transitions_specify_expense_value)
  from execute_single_decline [OF transitions_specify_expense_value specify_value_declines [OF this]]
  show ?thesis
    unfolding 8 by (simp add: reprompt_def)
next
  case 9
  with assms show ?thesis by simp
next
  case 10
  with assms show ?thesis
    using init_never_declines [of m] by auto
qed

theorem execute_all_decline_witness:
  "transitions example_env ''set_budget'' = Inr [(''set_budget'', set_budget_set_budget)]
   \<and> allDecline [(''set_budget'', set_budget_set_budget)] budget_without_money
   \<and> execute example_env 0 ''set_budget'' budget_without_money
       = Some (Inr (''set_budget'', say (Any ''specifyBudget'' []) budget_without_money))"
proof -
  have t: "transitions example_env ''set_budget'' = Inr [(''set_budget'', set_budget_set_budget)]"
    by (rule transitions_set_budget)
  have d: "allDecline [(''set_budget'', set_budget_set_budget)] budget_without_money"
    by (simp add: set_budget_set_budget_def budget_without_money_def emptyEphemeral_def)
  show ?thesis
    using t d execute_all_decline [OF t d, of 0] by (simp add: reprompt_def)
qed

text \<open>
  C5, as the claim states it: such a turn produces an empty message list. In state
  \<^verbatim>\<open>set_budget\<close> without a money fact the only rule declines and \<^verbatim>\<open>execute\<close> returns
  \<^verbatim>\<open>set_budget\<close>, but the rule has said the prompt \<^verbatim>\<open>specifyBudget\<close> first.
\<close>

theorem set_budget_decline_says_prompt:
  "transitions example_env ''set_budget'' = Inr [(''set_budget'', set_budget_set_budget)]
   \<and> allDecline [(''set_budget'', set_budget_set_budget)] budget_without_money
   \<and> messages budget_without_money = []
   \<and> map_option (map_sum fst (\<lambda>r. (fst r, messages (snd r))))
        (execute example_env 0 ''set_budget'' budget_without_money)
       = Some (Inr (''set_budget'', [Any ''specifyBudget'' []]))"
  by (simp add: transitions_set_budget set_budget_set_budget_def budget_without_money_def
        emptyEphemeral_def execute_def endsWithBang_def example_logic_def)


subsection \<open>The slot-filling loop\<close>

lemma tryRules_Cons:
  "tryRules env fuel st (t # ts) m =
     (case snd t m of (next, m') \<Rightarrow>
        if endsWithBang (fst next) then
          (case fuel of 0 \<Rightarrow> None | Suc k \<Rightarrow> execute env k (butlast (fst next)) m')
        else if fst next \<noteq> [] then Some (Inr (fst next, m'))
        else tryRules env fuel st ts m')"
  by (simp add: execute_def split: prod.splits nat.splits sum.splits)

declare tryRules.simps(2) [simp del]

declare tryRules_Cons [simp]

lemma add_expense_value_missing:
  assumes "money (ephemeral m) = Some mv" and "\<not> truthy (money_value mv)"
      and "truthy (item (ephemeral m))" and "moment (ephemeral m) = Some mo"
      and "\<not> truthy (currentExpenseValue (ctx m))"
  shows "fst (add_expense_add_expense m) = (''specify_expense_value!'', None)
       \<and> ephemeral (snd (add_expense_add_expense m)) = ephemeral m
       \<and> \<not> truthy (currentExpenseValue (ctx (snd (add_expense_add_expense m))))"
proof -
  let ?m1 = "add_expense_fill_item m"
  let ?m2 = "add_expense_fill_moment ?m1"
  let ?m3 = "add_expense_fill_value ?m2"
  have i1: "truthy (currentExpenseItem (ctx ?m1))"
    and v1: "\<not> truthy (currentExpenseValue (ctx ?m1))"
    using assms(3,5) by (simp_all add: ctx_fill_item)
  have i2: "truthy (currentExpenseItem (ctx ?m2))"
    and v2: "\<not> truthy (currentExpenseValue (ctx ?m2))"
    and d2: "currentExpenseIncurredOn (ctx ?m2) \<noteq> None"
    using i1 v1 assms(4) by (simp_all add: ctx_fill_moment)
  have i3: "truthy (currentExpenseItem (ctx ?m3))"
    and v3: "\<not> truthy (currentExpenseValue (ctx ?m3))"
    and d3: "currentExpenseIncurredOn (ctx ?m3) \<noteq> None"
    using i2 v2 d2 assms(1,2) by (simp_all add: ctx_fill_value)
  from d3 obtain d where "currentExpenseIncurredOn (ctx ?m3) = Some d" by auto
  then show ?thesis
    using i3 v3 by (simp add: add_expense_add_expense_def Let_def)
qed

lemma specify_value_present:
  assumes "money (ephemeral m) = Some mv"
  shows "fst (specify_expense_value_rule m) = (''add_expense!'', Some ''value_specified'')
       \<and> ephemeral (snd (specify_expense_value_rule m)) = ephemeral m
       \<and> currentExpenseValue (ctx (snd (specify_expense_value_rule m))) = money_value mv"
  using assms by (simp add: specify_expense_value_rule_def)

lemma execute_add_expense_step:
  assumes "money (ephemeral m) = Some mv" and "\<not> truthy (money_value mv)"
      and "truthy (item (ephemeral m))" and "moment (ephemeral m) = Some mo"
      and "\<not> truthy (currentExpenseValue (ctx m))"
  shows "execute env 0 ''add_expense'' m = None"
    and "execute env (Suc 0) ''add_expense'' m = None"
    and "\<exists>m'. execute env (Suc (Suc k)) ''add_expense'' m = execute env k ''add_expense'' m'
            \<and> ephemeral m' = ephemeral m \<and> \<not> truthy (currentExpenseValue (ctx m'))"
proof -
  obtain m1 where a: "add_expense_add_expense m = ((''specify_expense_value!'', None), m1)"
    and e1: "ephemeral m1 = ephemeral m"
    using add_expense_value_missing [OF assms]
    by (cases "add_expense_add_expense m") auto
  obtain m2 where s: "specify_expense_value_rule m1 = ((''add_expense!'', Some ''value_specified''), m2)"
    and e2: "ephemeral m2 = ephemeral m1" and v2: "currentExpenseValue (ctx m2) = money_value mv"
    using specify_value_present [of m1 mv] assms(1) e1
    by (cases "specify_expense_value_rule m1") auto
  show "execute env 0 ''add_expense'' m = None"
    using a by (simp add: execute_def transitions_add_expense endsWithBang_def)
  show "execute env (Suc 0) ''add_expense'' m = None"
    using a s
    by (simp add: execute_def transitions_add_expense transitions_specify_expense_value
          endsWithBang_def)
  have "execute env (Suc (Suc k)) ''add_expense'' m = execute env k ''add_expense'' m2"
    using a s
    by (simp add: execute_def transitions_add_expense transitions_specify_expense_value
          endsWithBang_def)
  then show "\<exists>m'. execute env (Suc (Suc k)) ''add_expense'' m = execute env k ''add_expense'' m'
            \<and> ephemeral m' = ephemeral m \<and> \<not> truthy (currentExpenseValue (ctx m'))"
    using e1 e2 v2 assms(2) by auto
qed

lemma add_expense_never_returns:
  assumes "money (ephemeral m) = Some mv" and "\<not> truthy (money_value mv)"
      and "truthy (item (ephemeral m))" and "moment (ephemeral m) = Some mo"
      and "\<not> truthy (currentExpenseValue (ctx m))"
  shows "execute env fuel ''add_expense'' m = None"
  using assms
proof (induction fuel arbitrary: m rule: less_induct)
  case (less fuel)
  note p = less.prems
  show ?case
  proof (cases fuel)
    case 0
    then show ?thesis using execute_add_expense_step(1) [OF p] by simp
  next
    case (Suc j)
    show ?thesis
    proof (cases j)
      case 0
      with Suc show ?thesis using execute_add_expense_step(2) [OF p] by simp
    next
      case (Suc k)
      from execute_add_expense_step(3) [OF p, of env k] obtain m'
        where st: "execute env (Suc (Suc k)) ''add_expense'' m = execute env k ''add_expense'' m'"
          and e: "ephemeral m' = ephemeral m"
          and v: "\<not> truthy (currentExpenseValue (ctx m'))"
        by blast
      have "k < fuel" using Suc \<open>fuel = Suc j\<close> by simp
      from less.IH [OF this, of m'] p e v have "execute env k ''add_expense'' m' = None"
        by simp
      with st Suc \<open>fuel = Suc j\<close> show ?thesis by simp
    qed
  qed
qed

lemma main_add_expense_fires:
  assumes "intent (ephemeral m) = JStr ''add_expense''"
  shows "fst (main_add_expense m) = (''add_expense!'', None)"
    and "ephemeral (snd (main_add_expense m)) = ephemeral m"
    and "currentExpenseValue (ctx (snd (main_add_expense m))) = JUndefined"
    and "currentExpenseItem (ctx (snd (main_add_expense m))) = JUndefined"
    and "currentExpenseIncurredOn (ctx (snd (main_add_expense m))) = None"
    and "actions (snd (main_add_expense m)) = actions m"
  using assms by (simp_all add: main_add_expense_def Let_def)

lemma main_to_add_expense:
  assumes "intent (ephemeral m) = JStr ''add_expense''"
  shows "execute env fuel ''main'' m =
           (case fuel of
              0 \<Rightarrow> None
            | Suc k \<Rightarrow> execute env k ''add_expense'' (snd (main_add_expense m)))"
  using assms main_add_expense_fires(1) [OF assms]
  by (cases fuel)
     (simp_all add: execute_def transitions_main main_request_help_def main_tell_joke_def
        main_who_are_you_def main_are_you_bot_def main_delete_account_def main_set_budget_def
        main_query_budget_def main_query_affordability_def
        endsWithBang_def case_prod_unfold)

lemma main_never_returns:
  assumes "intent (ephemeral m) = JStr ''add_expense''"
      and "money (ephemeral m) = Some mv" and "\<not> truthy (money_value mv)"
      and "truthy (item (ephemeral m))" and "moment (ephemeral m) = Some mo"
  shows "execute env fuel ''main'' m = None"
proof (cases fuel)
  case 0
  then show ?thesis using main_to_add_expense [OF assms(1)] by simp
next
  case (Suc k)
  have "execute env k ''add_expense'' (snd (main_add_expense m)) = None"
    by (rule add_expense_never_returns [where mv = mv and mo = mo])
       (simp_all add: main_add_expense_fires [OF assms(1)] assms)
  with Suc show ?thesis using main_to_add_expense [OF assms(1)] by simp
qed

lemma transition_never_returns:
  assumes "state (ctx m) = ''main''"
      and "intent (ephemeral m) = JStr ''add_expense''"
      and "money (ephemeral m) = Some mv" and "\<not> truthy (money_value mv)"
      and "truthy (item (ephemeral m))" and "moment (ephemeral m) = Some mo"
  shows "transition env fuel m = None"
proof -
  have c: "ctx (m\<lparr>messages := []\<rparr>) = ctx m"
    by (simp add: ctx_def)
  have "execute env fuel ''main'' (m\<lparr>messages := []\<rparr>) = None"
    by (rule main_never_returns [where mv = mv and mo = mo]) (simp_all add: assms)
  then show ?thesis
    using assms(1) c by (simp add: transition_def Let_def)
qed

text \<open>
  C2. The recursion of \<^verbatim>\<open>execute\<close> through the directives that end with \<^verbatim>\<open>!\<close> is to end within
  the turn. With intent \<^verbatim>\<open>add_expense\<close>, an item, a moment and a money fact whose value is 0,
  it does not: \<^verbatim>\<open>add_expense\<close> finds the value slot empty (\<^verbatim>\<open>!0\<close> is true) and passes to
  \<^verbatim>\<open>specify_expense_value\<close>, which stores the 0 and passes back to \<^verbatim>\<open>add_expense\<close>, which
  finds the slot empty again. No amount of fuel lets \<^verbatim>\<open>execute\<close> return from \<^verbatim>\<open>main\<close>.
\<close>

theorem execute_zero_amount_never_returns:
  "\<forall>fuel. execute example_env fuel ''main'' zero_amount_turn = None"
proof
  fix fuel
  show "execute example_env fuel ''main'' zero_amount_turn = None"
    by (rule main_never_returns
               [where mv = "\<lparr>money_body = JStr ''$0'', money_value = JNum 0\<rparr>"
                  and mo = "\<lparr>moment_grain = JStr ''day'', moment_value = 540000\<rparr>"])
       (simp_all add: zero_amount_turn_def zero_amount_facts_def)
qed

text \<open>
  C6. A turn in \<^verbatim>\<open>main\<close> with intent \<^verbatim>\<open>add_expense\<close> that supplies item, money and moment is
  to end in \<^verbatim>\<open>main\<close> with one \<^verbatim>\<open>add_expense\<close> action. When the money that is supplied is an
  amount of 0 the turn has no result at all: \<^verbatim>\<open>transition\<close> never returns.
\<close>

theorem all_facts_zero_amount_no_result:
  "state (ctx zero_amount_turn) = ''main''
   \<and> intent (ephemeral zero_amount_turn) = JStr ''add_expense''
   \<and> item (ephemeral zero_amount_turn) = JStr ''coffee''
   \<and> map_option money_value (money (ephemeral zero_amount_turn)) = Some (JNum 0)
   \<and> map_option moment_value (moment (ephemeral zero_amount_turn)) = Some 540000
   \<and> (\<forall>fuel. transition example_env fuel zero_amount_turn = None)"
proof -
  have "transition example_env fuel zero_amount_turn = None" for fuel
    by (rule transition_never_returns
               [where mv = "\<lparr>money_body = JStr ''$0'', money_value = JNum 0\<rparr>"
                  and mo = "\<lparr>moment_grain = JStr ''day'', moment_value = 540000\<rparr>"])
       (simp_all add: zero_amount_turn_def zero_amount_facts_def defaultContext_def)
  then show ?thesis
    by (simp add: zero_amount_turn_def zero_amount_facts_def defaultContext_def)
qed

lemma normalize_zero_amount:
  "normalizePayload zero_amount_env zero_amount_payload emptyEphemeral =
     Inr (zero_amount_payload,
          emptyEphemeral
            \<lparr>intent := JStr ''add_expense'', item := JStr ''coffee'',
             money := Some \<lparr>money_body = JStr ''$0'', money_value = JNum 0\<rparr>,
             moment := Some \<lparr>moment_grain = JStr ''day'', moment_value = 0\<rparr>\<rparr>)"
  by (simp add: normalizePayload_def zero_amount_payload_def orElse_def processTraits_def
        processIntents_def processEntities_def processEntity_def emptyEphemeral_def Let_def
        zero_amount_env_def example_env_def)

text \<open>
  C10. Every turn that begins in \<^verbatim>\<open>main\<close> is to emit at least one reply. The session whose
  text the NLU service reports as an \<^verbatim>\<open>add_expense\<close> of coffee for $0 today begins in
  \<^verbatim>\<open>main\<close> and \<^verbatim>\<open>process\<close> never returns for it: the caller gets no result and no reply.
\<close>

theorem turn_from_main_without_reply:
  "state (cells main_store (session_context zero_amount_session)) = ''main''
   \<and> (\<forall>fuel. process zero_amount_env fuel main_store zero_amount_session = None)"
proof -
  have q: "queryWit zero_amount_env zero_amount_session = Inr zero_amount_payload"
    by (simp add: queryWit_def zero_amount_env_def zero_amount_session_def example_session_def)
  have "process zero_amount_env fuel main_store zero_amount_session = None" for fuel
  proof -
    have "transition zero_amount_env fuel
            \<lparr>messages = [], actions = [], wit = zero_amount_payload,
             ephemeral = emptyEphemeral
               \<lparr>intent := JStr ''add_expense'', item := JStr ''coffee'',
                money := Some \<lparr>money_body = JStr ''$0'', money_value = JNum 0\<rparr>,
                moment := Some \<lparr>moment_grain = JStr ''day'', moment_value = 0\<rparr>\<rparr>,
             context_ref = used main_store, session = zero_amount_session,
             heap = (cells main_store)(used main_store :=
                      cells main_store (session_context zero_amount_session))\<rparr> = None"
      by (rule transition_never_returns
                 [where mv = "\<lparr>money_body = JStr ''$0'', money_value = JNum 0\<rparr>"
                    and mo = "\<lparr>moment_grain = JStr ''day'', moment_value = 0\<rparr>"])
         (simp_all add: ctx_def main_store_def)
    then show ?thesis
      using q normalize_zero_amount by (simp add: process_def copyContext_def)
  qed
  then show ?thesis
    by (simp add: main_store_def)
qed

subsection \<open>Jokes\<close>

lemma main_tell_joke_fires:
  assumes "intent (ephemeral m) = JStr ''tell_joke''"
  shows "execute env fuel ''main'' m = Some (Inr (''main'', sayJoke env m))"
  using assms
  by (simp add: execute_def transitions_main main_request_help_def main_tell_joke_def
        endsWithBang_def)

lemma sayJoke_effect:
  "messages (sayJoke env m) =
     messages m @ [joke_get (jokes env) (jokeCounter (ctx m)) (Any ''doneJoking'' [])]"
  "jokeCounter (ctx (sayJoke env m)) = min (jokeCounter (ctx m) + 1) (int (length (jokes env)))"
  "state (ctx (sayJoke env m)) = state (ctx m)"
  by (simp_all add: sayJoke_def Let_def)

lemma joke_turn:
  assumes "state (ctx m) = ''main''" and "intent (ephemeral m) = JStr ''tell_joke''"
  shows "\<exists>r m'. transition env fuel m = Some (Inr (r, m'))
           \<and> result_messages r = [joke_get (jokes env) (jokeCounter (ctx m)) (Any ''doneJoking'' [])]
           \<and> state (ctx m') = ''main''
           \<and> jokeCounter (ctx m') = min (jokeCounter (ctx m) + 1) (int (length (jokes env)))"
proof -
  let ?m0 = "m\<lparr>messages := []\<rparr>"
  have c: "ctx ?m0 = ctx m" by (simp add: ctx_def)
  have "execute env fuel ''main'' ?m0 = Some (Inr (''main'', sayJoke env ?m0))"
    by (rule main_tell_joke_fires) (simp add: assms)
  then show ?thesis
    using assms(1) c by (simp add: transition_def Let_def sayJoke_effect)
qed

lemma joke_get_filler:
  "int (length js) \<le> i \<Longrightarrow> joke_get js i fallback = fallback"
  by (simp add: joke_get_def)

text \<open>
  C9. In a conversation that starts in \<^verbatim>\<open>main\<close> and in which every turn asks for a joke,
  every turn returns and the state stays \<^verbatim>\<open>main\<close>. After one or more turns the joke counter
  is the smaller of the list length and the counter at the start plus the number of jokes
  told: it does not exceed the list length, and it has grown by at most one per joke.
  Every turn at which the counter has reached the list length replies with the filler
  \<^verbatim>\<open>doneJoking\<close> and nothing else.
\<close>

theorem joke_counter_saturates:
  assumes "state (ctx m) = ''main''"
      and "list_all (\<lambda>e. intent e = JStr ''tell_joke'') es"
  shows "\<exists>rs m'. conversation env fuel es m = Some (Inr (rs, m'))
           \<and> length rs = length es
           \<and> state (ctx m') = ''main''
           \<and> (if es = [] then jokeCounter (ctx m') = jokeCounter (ctx m)
               else jokeCounter (ctx m') =
                      min (jokeCounter (ctx m) + int (length es)) (int (length (jokes env))))
           \<and> jokeCounter (ctx m') \<le> jokeCounter (ctx m) + int (length es)
           \<and> (\<forall>i. i < length rs \<and> int (length (jokes env)) \<le> jokeCounter (ctx m) + int i
                  \<longrightarrow> result_messages (rs ! i) = [Any ''doneJoking'' []])"
  using assms
proof (induction es arbitrary: m)
  case Nil
  then show ?case by simp
next
  case (Cons e es)
  let ?m0 = "m\<lparr>ephemeral := e, actions := []\<rparr>"
  let ?n = "int (length (jokes env))"
  have c0: "ctx ?m0 = ctx m" by (simp add: ctx_def)
  have i0: "intent (ephemeral ?m0) = JStr ''tell_joke''" using Cons.prems(2) by simp
  have s0: "state (ctx ?m0) = ''main''" using Cons.prems(1) c0 by simp
  from joke_turn [OF s0 i0, of env fuel] obtain r m1
    where t: "transition env fuel ?m0 = Some (Inr (r, m1))"
      and r: "result_messages r = [joke_get (jokes env) (jokeCounter (ctx m)) (Any ''doneJoking'' [])]"
      and s1: "state (ctx m1) = ''main''"
      and j1: "jokeCounter (ctx m1) = min (jokeCounter (ctx m) + 1) ?n"
    using c0 by auto
  from Cons.prems(2) have all: "list_all (\<lambda>e. intent e = JStr ''tell_joke'') es" by simp
  from Cons.IH [OF s1 all] obtain rs m2
    where cv: "conversation env fuel es m1 = Some (Inr (rs, m2))"
      and len: "length rs = length es"
      and s2: "state (ctx m2) = ''main''"
      and j2: "if es = [] then jokeCounter (ctx m2) = jokeCounter (ctx m1)
               else jokeCounter (ctx m2) = min (jokeCounter (ctx m1) + int (length es)) ?n"
      and b2: "jokeCounter (ctx m2) \<le> jokeCounter (ctx m1) + int (length es)"
      and f2: "\<forall>i. i < length rs \<and> ?n \<le> jokeCounter (ctx m1) + int i
                  \<longrightarrow> result_messages (rs ! i) = [Any ''doneJoking'' []]"
    by blast
  have conv: "conversation env fuel (e # es) m = Some (Inr (r # rs, m2))"
    using t cv by simp
  have count: "jokeCounter (ctx m2) = min (jokeCounter (ctx m) + int (length (e # es))) ?n"
    using j1 j2 by (cases "es = []") auto
  have bound: "jokeCounter (ctx m2) \<le> jokeCounter (ctx m) + int (length (e # es))"
    using j1 b2 by auto
  have filler: "result_messages ((r # rs) ! i) = [Any ''doneJoking'' []]"
    if "i < length (r # rs)" and "?n \<le> jokeCounter (ctx m) + int i" for i
  proof (cases i)
    case 0
    with that r show ?thesis by (simp add: joke_get_filler)
  next
    case (Suc k)
    with that have "k < length rs" and "?n \<le> jokeCounter (ctx m1) + int k"
      using j1 by auto
    with f2 Suc show ?thesis by simp
  qed
  show ?case
    using conv len s2 count bound filler by auto
qed

theorem joke_counter_saturates_witness:
  "state (ctx joke_listener) = ''main''
   \<and> list_all (\<lambda>e. intent e = JStr ''tell_joke'') [joke_facts, joke_facts, joke_facts, joke_facts]
   \<and> (\<exists>rs m'. conversation example_env 0 [joke_facts, joke_facts, joke_facts, joke_facts] joke_listener
                 = Some (Inr (rs, m'))
          \<and> jokeCounter (ctx m') = 2
          \<and> result_messages (rs ! 2) = [Any ''doneJoking'' []]
          \<and> result_messages (rs ! 3) = [Any ''doneJoking'' []])"
proof -
  have s: "state (ctx joke_listener) = ''main''"
    by (simp add: joke_listener_def defaultContext_def)
  have a: "list_all (\<lambda>e. intent e = JStr ''tell_joke'') [joke_facts, joke_facts, joke_facts, joke_facts]"
    by (simp add: joke_facts_def)
  have j: "jokeCounter (ctx joke_listener) = 0" "length (jokes example_env) = 2"
    by (simp_all add: joke_listener_def defaultContext_def example_env_def)
  show ?thesis
    using s a joke_counter_saturates [OF s a, of example_env 0] j
    by (auto simp add: numeral_3_eq_3)
qed

subsection \<open>Turns that return\<close>

text \<open>
  The loop above needs a money fact whose value counts as false. Without one, \<^verbatim>\<open>execute\<close>
  returns from every state within three steps through directives that end with \<^verbatim>\<open>!\<close>
  (\<open>execute_returns\<close>); a turn with intent \<^verbatim>\<open>add_expense\<close> that brings an item, a moment and
  an amount that is not zero ends in \<^verbatim>\<open>main\<close> with the one action and changes nothing
  else of the context than the three slots, the state, the message counter and the time
  of the last message (\<open>add_expense_all_facts\<close>); and whenever a turn that begins in
  \<^verbatim>\<open>main\<close> returns, it has replied (\<open>turn_from_main_replies\<close>).
\<close>

lemma add_expense_outcomes:
  "add_expense_add_expense m =
     ((''specify_expense_item!'', None),
      add_expense_fill_value (add_expense_fill_moment (add_expense_fill_item m)))
   \<or> add_expense_add_expense m =
     ((''specify_expense_moment!'', None),
      add_expense_fill_value (add_expense_fill_moment (add_expense_fill_item m)))
   \<or> add_expense_add_expense m =
     ((''specify_expense_value!'', None),
      add_expense_fill_value (add_expense_fill_moment (add_expense_fill_item m)))
   \<or> (\<exists>p a. add_expense_add_expense m =
         ((''main'', Some ''expense_added''),
          say p (action a (add_expense_fill_value (add_expense_fill_moment (add_expense_fill_item m))))))"
  by (auto simp add: add_expense_add_expense_def Let_def split: option.splits)

lemma specify_item_outcomes:
  "specify_expense_item_rule m = (([], None), say (Any ''specifyExpenseItem'' []) m)
   \<or> (\<exists>f. specify_expense_item_rule m =
          ((''add_expense!'', Some ''item_specified''), ctx_upd f m))"
  by (auto simp add: specify_expense_item_rule_def)

lemma specify_moment_outcomes:
  "specify_expense_moment_rule m = (([], None), say (Any ''specifyExpenseMoment'' []) m)
   \<or> (\<exists>f. specify_expense_moment_rule m =
          ((''add_expense!'', Some ''moment_specified''), ctx_upd f m))"
  by (auto simp add: specify_expense_moment_rule_def split: option.splits)

lemma specify_value_outcomes:
  "specify_expense_value_rule m = (([], None), say (Any ''specifyExpenseValue'' []) m)
   \<or> (\<exists>f. specify_expense_value_rule m =
          ((''add_expense!'', Some ''value_specified''), ctx_upd f m))"
  by (auto simp add: specify_expense_value_rule_def split: option.splits)

lemma execute_specify_replies:
  assumes ih: "\<And>j m0 st0 m0'. j < k \<Longrightarrow> execute env j ''add_expense'' m0 = Some (Inr (st0, m0')) \<Longrightarrow> messages m0' \<noteq> []"
      and run: "execute env k st m = Some (Inr (st', m'))"
      and st: "st = ''specify_expense_item'' \<or> st = ''specify_expense_moment''
               \<or> st = ''specify_expense_value''"
  shows "messages m' \<noteq> []"
proof -
  from st consider (i) "st = ''specify_expense_item''" | (mo) "st = ''specify_expense_moment''"
    | (v) "st = ''specify_expense_value''" by blast
  then show ?thesis
  proof cases
    case i
    from specify_item_outcomes [of m] show ?thesis
    proof (elim disjE exE)
      assume "specify_expense_item_rule m = (([], None), say (Any ''specifyExpenseItem'' []) m)"
      with run i show ?thesis
        by (auto simp add: execute_def transitions_specify_expense_item endsWithBang_def)
    next
      fix f assume a: "specify_expense_item_rule m = ((''add_expense!'', Some ''item_specified''), ctx_upd f m)"
      show ?thesis
      proof (cases k)
        case 0
        with run i a show ?thesis
          by (simp add: execute_def transitions_specify_expense_item endsWithBang_def)
      next
        case (Suc j)
        with run i a have "execute env j ''add_expense'' (ctx_upd f m) = Some (Inr (st', m'))"
          by (simp add: execute_def transitions_specify_expense_item endsWithBang_def)
        with ih [of j] Suc show ?thesis by simp
      qed
    qed
  next
    case mo
    from specify_moment_outcomes [of m] show ?thesis
    proof (elim disjE exE)
      assume "specify_expense_moment_rule m = (([], None), say (Any ''specifyExpenseMoment'' []) m)"
      with run mo show ?thesis
        by (auto simp add: execute_def transitions_specify_expense_moment endsWithBang_def)
    next
      fix f assume a: "specify_expense_moment_rule m = ((''add_expense!'', Some ''moment_specified''), ctx_upd f m)"
      show ?thesis
      proof (cases k)
        case 0
        with run mo a show ?thesis
          by (simp add: execute_def transitions_specify_expense_moment endsWithBang_def)
      next
        case (Suc j)
        with run mo a have "execute env j ''add_expense'' (ctx_upd f m) = Some (Inr (st', m'))"
          by (simp add: execute_def transitions_specify_expense_moment endsWithBang_def)
        with ih [of j] Suc show ?thesis by simp
      qed
    qed
  next
    case v
    from specify_value_outcomes [of m] show ?thesis
    proof (elim disjE exE)
      assume "specify_expense_value_rule m = (([], None), say (Any ''specifyExpenseValue'' []) m)"
      with run v show ?thesis
        by (auto simp add: execute_def transitions_specify_expense_value endsWithBang_def)
    next
      fix f assume a: "specify_expense_value_rule m = ((''add_expense!'', Some ''value_specified''), ctx_upd f m)"
      show ?thesis
      proof (cases k)
        case 0
        with run v a show ?thesis
          by (simp add: execute_def transitions_specify_expense_value endsWithBang_def)
      next
        case (Suc j)
        with run v a have "execute env j ''add_expense'' (ctx_upd f m) = Some (Inr (st', m'))"
          by (simp add: execute_def transitions_specify_expense_value endsWithBang_def)
        with ih [of j] Suc show ?thesis by simp
      qed
    qed
  qed
qed

lemma execute_add_expense_replies:
  "execute env k ''add_expense'' m = Some (Inr (st', m')) \<Longrightarrow> messages m' \<noteq> []"
proof (induction k arbitrary: m st' m' rule: less_induct)
  case (less k)
  let ?m3 = "add_expense_fill_value (add_expense_fill_moment (add_expense_fill_item m))"
  note run = less.prems
  have step: "messages m' \<noteq> []"
    if a: "add_expense_add_expense m = ((s @ ''!'', None), ?m3)"
      and s: "s = ''specify_expense_item'' \<or> s = ''specify_expense_moment''
               \<or> s = ''specify_expense_value''" for s
  proof (cases k)
    case 0
    with run a show ?thesis
      by (simp add: execute_def transitions_add_expense endsWithBang_def)
  next
    case (Suc j)
    with run a have r: "execute env j s ?m3 = Some (Inr (st', m'))"
      by (simp add: execute_def transitions_add_expense endsWithBang_def)
    show ?thesis
    proof (rule execute_specify_replies [OF _ r s])
      fix i m0 st0 m0'
      assume "i < j" and "execute env i ''add_expense'' m0 = Some (Inr (st0, m0'))"
      with less.IH [of i m0 st0 m0'] Suc show "messages m0' \<noteq> []" by simp
    qed
  qed
  from add_expense_outcomes [of m] show ?case
  proof (elim disjE exE)
    assume "add_expense_add_expense m = ((''specify_expense_item!'', None), ?m3)"
    then show ?thesis using step [of "''specify_expense_item''"] by simp
  next
    assume "add_expense_add_expense m = ((''specify_expense_moment!'', None), ?m3)"
    then show ?thesis using step [of "''specify_expense_moment''"] by simp
  next
    assume "add_expense_add_expense m = ((''specify_expense_value!'', None), ?m3)"
    then show ?thesis using step [of "''specify_expense_value''"] by simp
  next
    fix p a
    assume "add_expense_add_expense m = ((''main'', Some ''expense_added''), say p (action a ?m3))"
    with run show ?thesis
      by (auto simp add: execute_def transitions_add_expense endsWithBang_def)
  qed
qed


lemma set_budget_replies:
  "execute env k ''set_budget'' m = Some (Inr (st', m')) \<Longrightarrow> messages m' \<noteq> []"
  by (auto simp add: execute_def transitions_set_budget set_budget_set_budget_def
        endsWithBang_def split: option.splits)

lemma execute_main_replies:
  assumes run: "execute env k ''main'' m = Some (Inr (st', m'))" and empty: "messages m = []"
  shows "messages m' \<noteq> []"
proof -
  note rules = execute_def transitions_main main_request_help_def main_tell_joke_def
    main_who_are_you_def main_are_you_bot_def main_delete_account_def main_set_budget_def
    main_query_budget_def main_query_affordability_def main_add_expense_def
    main_query_summary_def main_confused_def sayJoke_def endsWithBang_def Let_def
  consider
      (hlp) "intent (ephemeral m) = JStr ''request_help''"
    | (joke) "intent (ephemeral m) = JStr ''tell_joke''"
    | (who) "intent (ephemeral m) = JStr ''who_are_you''"
    | (bot) "intent (ephemeral m) = JStr ''are_you_bot''"
    | (del) "intent (ephemeral m) = JStr ''delete_account''"
    | (setb) "intent (ephemeral m) = JStr ''set_budget''"
    | (qb) "intent (ephemeral m) = JStr ''query_budget''"
    | (qa) "intent (ephemeral m) = JStr ''query_affordability''"
    | (add) "intent (ephemeral m) = JStr ''add_expense''"
    | (qs) "intent (ephemeral m) = JStr ''query_summary''"
    | (none) "intent (ephemeral m) \<noteq> JStr ''request_help''" "intent (ephemeral m) \<noteq> JStr ''tell_joke''"
        "intent (ephemeral m) \<noteq> JStr ''who_are_you''" "intent (ephemeral m) \<noteq> JStr ''are_you_bot''"
        "intent (ephemeral m) \<noteq> JStr ''delete_account''" "intent (ephemeral m) \<noteq> JStr ''set_budget''"
        "intent (ephemeral m) \<noteq> JStr ''query_budget''" "intent (ephemeral m) \<noteq> JStr ''query_affordability''"
        "intent (ephemeral m) \<noteq> JStr ''add_expense''" "intent (ephemeral m) \<noteq> JStr ''query_summary''"
    by blast
  then show ?thesis
  proof cases
    case hlp
    with run show ?thesis by (auto simp add: rules)
  next
    case joke
    with run show ?thesis by (auto simp add: rules)
  next
    case who
    with run show ?thesis by (auto simp add: rules)
  next
    case bot
    with run show ?thesis by (auto simp add: rules)
  next
    case del
    with run show ?thesis by (auto simp add: rules)
  next
    case setb
    with run have "\<exists>j. execute env j ''set_budget'' m = Some (Inr (st', m'))"
      by (cases k) (auto simp add: rules)
    then show ?thesis using set_budget_replies by blast
  next
    case qb
    with run show ?thesis by (auto simp add: rules)
  next
    case qa
    with run show ?thesis by (auto simp add: rules split: option.splits)
  next
    case add
    with run main_to_add_expense [OF add, of env k]
    have "\<exists>j. execute env j ''add_expense'' (snd (main_add_expense m)) = Some (Inr (st', m'))"
      by (cases k) auto
    then show ?thesis using execute_add_expense_replies by blast
  next
    case qs
    with run show ?thesis by (auto simp add: rules split: if_splits)
  next
    case none
    with run empty show ?thesis by (auto simp add: rules split: if_splits)
  qed
qed

lemma turn_from_main_replies:
  assumes "transition env fuel m = Some (Inr (r, m'))" and "state (ctx m) = ''main''"
  shows "result_messages r \<noteq> []"
proof -
  let ?m0 = "m\<lparr>messages := []\<rparr>"
  have c: "ctx ?m0 = ctx m" by (simp add: ctx_def)
  from assms c obtain st m1 where e: "execute env fuel ''main'' ?m0 = Some (Inr (st, m1))"
    and r: "result_messages r = messages m1"
    by (auto simp add: transition_def Let_def split: option.splits sum.splits)
  from execute_main_replies [OF e] r show ?thesis by simp
qed


lemma filled_slots:
  fixes m
  defines "m3 \<equiv> add_expense_fill_value (add_expense_fill_moment (add_expense_fill_item m))"
  shows "\<not> truthy (currentExpenseItem (ctx m3)) \<Longrightarrow> \<not> truthy (item (ephemeral m))"
    and "currentExpenseIncurredOn (ctx m3) = None \<Longrightarrow>
           moment (ephemeral m) = None \<and> interval (ephemeral m) = None"
    and "\<not> truthy (currentExpenseValue (ctx m3)) \<Longrightarrow>
           money (ephemeral m) = None \<or> (\<exists>mv. money (ephemeral m) = Some mv \<and> \<not> truthy (money_value mv))"
  unfolding m3_def
  by (auto simp add: ctx_fill_value ctx_fill_moment ctx_fill_item split: option.splits if_splits)

lemma add_expense_returns:
  assumes good: "\<forall>mv. money (ephemeral m) = Some mv \<longrightarrow> truthy (money_value mv)"
  shows "\<exists>r. execute env (Suc k) ''add_expense'' m = Some r"
proof -
  let ?m3 = "add_expense_fill_value (add_expense_fill_moment (add_expense_fill_item m))"
  note ex = execute_def transitions_add_expense transitions_specify_expense_item
    transitions_specify_expense_moment transitions_specify_expense_value endsWithBang_def
  consider (i) "\<not> truthy (currentExpenseItem (ctx ?m3))"
    | (d) "truthy (currentExpenseItem (ctx ?m3))" "currentExpenseIncurredOn (ctx ?m3) = None"
    | (v) t where "truthy (currentExpenseItem (ctx ?m3))" "currentExpenseIncurredOn (ctx ?m3) = Some t"
        "\<not> truthy (currentExpenseValue (ctx ?m3))"
    | (c) t where "truthy (currentExpenseItem (ctx ?m3))" "currentExpenseIncurredOn (ctx ?m3) = Some t"
        "truthy (currentExpenseValue (ctx ?m3))"
    by (cases "currentExpenseIncurredOn (ctx ?m3)") auto
  then show ?thesis
  proof cases
    case i
    from filled_slots(1) [OF i] have "\<not> truthy (item (ephemeral ?m3))" by simp
    then show ?thesis
      using i by (simp add: ex add_expense_add_expense_def Let_def specify_expense_item_rule_def)
  next
    case d
    from filled_slots(2) [OF d(2)]
    have "moment (ephemeral ?m3) = None" "interval (ephemeral ?m3) = None" by simp_all
    then show ?thesis
      using d by (simp add: ex add_expense_add_expense_def Let_def specify_expense_moment_rule_def)
  next
    case v
    from filled_slots(3) [OF v(3)] good have "money (ephemeral ?m3) = None" by auto
    then show ?thesis
      using v by (simp add: ex add_expense_add_expense_def Let_def specify_expense_value_rule_def)
  next
    case c
    then show ?thesis
      by (simp add: ex add_expense_add_expense_def Let_def)
  qed
qed

lemma specify_returns:
  assumes good: "\<forall>mv. money (ephemeral m) = Some mv \<longrightarrow> truthy (money_value mv)"
      and st: "st = ''specify_expense_item'' \<or> st = ''specify_expense_moment''
               \<or> st = ''specify_expense_value''"
  shows "\<exists>r. execute env (Suc (Suc k)) st m = Some r"
proof -
  have again: "\<exists>r. execute env (Suc k) ''add_expense'' (ctx_upd f m) = Some r" for f
    by (rule add_expense_returns) (simp add: good)
  note ex = execute_def transitions_specify_expense_item
    transitions_specify_expense_moment transitions_specify_expense_value endsWithBang_def
  from st consider (i) "st = ''specify_expense_item''" | (mo) "st = ''specify_expense_moment''"
    | (v) "st = ''specify_expense_value''" by blast
  then show ?thesis
  proof cases
    case i
    from specify_item_outcomes [of m] show ?thesis
      using again i by (auto simp add: ex)
  next
    case mo
    from specify_moment_outcomes [of m] show ?thesis
      using again mo by (auto simp add: ex)
  next
    case v
    from specify_value_outcomes [of m] show ?thesis
      using again v by (auto simp add: ex)
  qed
qed

lemma main_returns:
  assumes good: "\<forall>mv. money (ephemeral m) = Some mv \<longrightarrow> truthy (money_value mv)"
  shows "\<exists>r. execute env (Suc (Suc k)) ''main'' m = Some r"
proof -
  note rules = execute_def transitions_main main_request_help_def main_tell_joke_def
    main_who_are_you_def main_are_you_bot_def main_delete_account_def main_set_budget_def
    main_query_budget_def main_query_affordability_def
    main_query_summary_def main_confused_def endsWithBang_def Let_def
  show ?thesis
  proof (cases "intent (ephemeral m) = JStr ''add_expense''")
    case True
    have "\<exists>r. execute env (Suc k) ''add_expense'' (snd (main_add_expense m)) = Some r"
      by (rule add_expense_returns) (simp add: main_add_expense_fires [OF True] good)
    then show ?thesis using main_to_add_expense [OF True, of env "Suc (Suc k)"] by simp
  next
    case False
    then have na: "main_add_expense m = (([], None), m)"
      by (simp add: main_add_expense_def)
    show ?thesis
    proof (cases "intent (ephemeral m) = JStr ''set_budget''")
      case True
      then show ?thesis
        by (simp add: rules transitions_set_budget set_budget_set_budget_def split: option.splits)
    next
      case nb: False
      then show ?thesis
        using na by (simp add: rules split: option.splits)
    qed
  qed
qed

lemma execute_returns:
  assumes good: "\<forall>mv. money (ephemeral m) = Some mv \<longrightarrow> truthy (money_value mv)"
  shows "\<exists>r. execute env (Suc (Suc (Suc k))) st m = Some r"
proof -
  have via_init: "\<exists>r. execute env (Suc (Suc (Suc k))) st m = Some r"
    if "transitions env st = Inr [(''first_interaction'', init_first_interaction)]"
  proof -
    have "execute env (Suc (Suc (Suc k))) st m = execute env (Suc (Suc k)) ''main'' (sayWelcome (sayHi m))"
      using that by (simp add: execute_def init_first_interaction_def endsWithBang_def)
    moreover have "ephemeral (sayWelcome (sayHi m)) = ephemeral m"
      by (simp add: sayWelcome_def sayHi_def)
    ultimately show ?thesis
      using main_returns [of "sayWelcome (sayHi m)" env k] good by simp
  qed
  show ?thesis
  proof (cases rule: state_cases [where st = st and env = env])
    case 1
    then show ?thesis using via_init transitions_init by simp
  next
    case 2
    then show ?thesis using main_returns [OF good, of env "Suc k"] by simp
  next
    case 3
    then show ?thesis
      by (simp add: execute_def transitions_delete_account delete_account_confirmation_def
            endsWithBang_def)
  next
    case 4
    then show ?thesis
      by (simp add: execute_def transitions_set_budget set_budget_set_budget_def
            endsWithBang_def split: option.splits)
  next
    case 5
    then show ?thesis using add_expense_returns [OF good, of env "Suc (Suc k)"] by simp
  next
    case 6
    then show ?thesis using specify_returns [OF good, of st env "Suc k"] by simp
  next
    case 7
    then show ?thesis using specify_returns [OF good, of st env "Suc k"] by simp
  next
    case 8
    then show ?thesis using specify_returns [OF good, of st env "Suc k"] by simp
  next
    case 9
    then show ?thesis by (simp add: execute_def)
  next
    case 10
    then show ?thesis by (rule via_init)
  qed
qed


lemma ctx_main_add_expense:
  assumes "intent (ephemeral m) = JStr ''add_expense''"
  shows "ctx (snd (main_add_expense m)) =
           (ctx m)\<lparr>currentExpenseItem := JUndefined, currentExpenseIncurredOn := None,
                    currentExpenseValue := JUndefined\<rparr>"
  using assms by (simp add: main_add_expense_def Let_def)

lemma add_expense_all_facts:
  assumes st: "state (ctx m) = ''main''"
      and i: "intent (ephemeral m) = JStr ''add_expense''"
      and it: "truthy (item (ephemeral m))"
      and mv: "money (ephemeral m) = Some mv" "truthy (money_value mv)"
      and mo: "moment (ephemeral m) = Some mo"
  shows "\<exists>r m'. transition env (Suc k) m = Some (Inr (r, m'))
           \<and> result_actions r =
               actions m @ [AddExpense \<lparr>expense_item = item (ephemeral m),
                                         expense_value = money_value mv,
                                         incurredOn = moment_value mo\<rparr>]
           \<and> ctx m' =
               (ctx m)\<lparr>currentExpenseItem := item (ephemeral m),
                        currentExpenseIncurredOn := Some (moment_value mo),
                        currentExpenseValue := money_value mv,
                        state := ''main'',
                        messageCounter := messageCounter (ctx m) + 1,
                        lastMessageOn := now env\<rparr>"
proof -
  let ?m0 = "m\<lparr>messages := []\<rparr>"
  let ?m1 = "snd (main_add_expense ?m0)"
  let ?m3 = "add_expense_fill_value (add_expense_fill_moment (add_expense_fill_item ?m1))"
  have c0: "ctx ?m0 = ctx m" by (simp add: ctx_def)
  have i0: "intent (ephemeral ?m0) = JStr ''add_expense''" using i by simp
  have e1: "ephemeral ?m1 = ephemeral m" and a1: "actions ?m1 = actions m"
    using main_add_expense_fires(2,6) [OF i0] by simp_all
  have c1: "ctx ?m1 = (ctx m)\<lparr>currentExpenseItem := JUndefined, currentExpenseIncurredOn := None,
                                currentExpenseValue := JUndefined\<rparr>"
    using ctx_main_add_expense [OF i0] c0 by simp
  have c3: "ctx ?m3 = (ctx m)\<lparr>currentExpenseItem := item (ephemeral m),
                                currentExpenseIncurredOn := Some (moment_value mo),
                                currentExpenseValue := money_value mv\<rparr>"
    using it mv mo by (simp add: ctx_fill_value ctx_fill_moment ctx_fill_item e1 c1)
  have a3: "actions ?m3 = actions m" using a1 by simp
  have run: "execute env k ''add_expense'' ?m1 =
               Some (Inr (''main'',
                     say (Any ''expenseCompleted''
                            [(''item'', FValue (item (ephemeral m))),
                             (''value'', FDollar (money_value mv)),
                             (''moment'', FDate (moment_value mo))])
                       (action (AddExpense \<lparr>expense_item = item (ephemeral m),
                                            expense_value = money_value mv,
                                            incurredOn = moment_value mo\<rparr>) ?m3)))"
    using it mv(2) by (simp add: execute_def transitions_add_expense add_expense_add_expense_def
                         Let_def c3 endsWithBang_def)
  have "execute env (Suc k) ''main'' ?m0 = execute env k ''add_expense'' ?m1"
    using main_to_add_expense [OF i0, of env "Suc k"] by simp
  with run st c0 show ?thesis
    by (simp add: transition_def Let_def c3 a1)
qed

section \<open>The session orchestrator\<close>

lemma frame_init:
  "context_ref (snd (init_first_interaction m)) = context_ref m
   \<and> (a \<noteq> context_ref m \<longrightarrow> heap (snd (init_first_interaction m)) a = heap m a)"
  by (simp add: init_first_interaction_def sayHi_def sayWelcome_def)

lemma frame_main:
  "context_ref (snd (main_request_help m)) = context_ref m
   \<and> (a \<noteq> context_ref m \<longrightarrow> heap (snd (main_request_help m)) a = heap m a)"
  "context_ref (snd (main_tell_joke env m)) = context_ref m
   \<and> (a \<noteq> context_ref m \<longrightarrow> heap (snd (main_tell_joke env m)) a = heap m a)"
  "context_ref (snd (main_who_are_you m)) = context_ref m
   \<and> (a \<noteq> context_ref m \<longrightarrow> heap (snd (main_who_are_you m)) a = heap m a)"
  "context_ref (snd (main_are_you_bot m)) = context_ref m
   \<and> (a \<noteq> context_ref m \<longrightarrow> heap (snd (main_are_you_bot m)) a = heap m a)"
  "context_ref (snd (main_delete_account m)) = context_ref m
   \<and> (a \<noteq> context_ref m \<longrightarrow> heap (snd (main_delete_account m)) a = heap m a)"
  "context_ref (snd (main_set_budget m)) = context_ref m
   \<and> (a \<noteq> context_ref m \<longrightarrow> heap (snd (main_set_budget m)) a = heap m a)"
  "context_ref (snd (main_query_budget env m)) = context_ref m
   \<and> (a \<noteq> context_ref m \<longrightarrow> heap (snd (main_query_budget env m)) a = heap m a)"
  "context_ref (snd (main_query_affordability env m)) = context_ref m
   \<and> (a \<noteq> context_ref m \<longrightarrow> heap (snd (main_query_affordability env m)) a = heap m a)"
  "context_ref (snd (main_add_expense m)) = context_ref m
   \<and> (a \<noteq> context_ref m \<longrightarrow> heap (snd (main_add_expense m)) a = heap m a)"
  "context_ref (snd (main_query_summary env m)) = context_ref m
   \<and> (a \<noteq> context_ref m \<longrightarrow> heap (snd (main_query_summary env m)) a = heap m a)"
  "context_ref (snd (main_confused m)) = context_ref m
   \<and> (a \<noteq> context_ref m \<longrightarrow> heap (snd (main_confused m)) a = heap m a)"
  by (simp_all add: main_request_help_def main_tell_joke_def sayJoke_def main_who_are_you_def
        main_are_you_bot_def main_delete_account_def main_set_budget_def main_query_budget_def
        main_query_affordability_def main_add_expense_def main_query_summary_def
        main_confused_def Let_def split: option.splits)

lemma frame_delete_account:
  "context_ref (snd (delete_account_confirmation env m)) = context_ref m
   \<and> (a \<noteq> context_ref m \<longrightarrow> heap (snd (delete_account_confirmation env m)) a = heap m a)"
  by (simp add: delete_account_confirmation_def)

lemma frame_set_budget:
  "context_ref (snd (set_budget_set_budget m)) = context_ref m
   \<and> (a \<noteq> context_ref m \<longrightarrow> heap (snd (set_budget_set_budget m)) a = heap m a)"
  by (simp add: set_budget_set_budget_def split: option.splits)

lemma frame_add_expense:
  "context_ref (snd (add_expense_add_expense m)) = context_ref m
   \<and> (a \<noteq> context_ref m \<longrightarrow> heap (snd (add_expense_add_expense m)) a = heap m a)"
  by (simp add: add_expense_add_expense_def Let_def split: option.splits)

lemma frame_specify:
  "context_ref (snd (specify_expense_item_rule m)) = context_ref m
   \<and> (a \<noteq> context_ref m \<longrightarrow> heap (snd (specify_expense_item_rule m)) a = heap m a)"
  "context_ref (snd (specify_expense_moment_rule m)) = context_ref m
   \<and> (a \<noteq> context_ref m \<longrightarrow> heap (snd (specify_expense_moment_rule m)) a = heap m a)"
  "context_ref (snd (specify_expense_value_rule m)) = context_ref m
   \<and> (a \<noteq> context_ref m \<longrightarrow> heap (snd (specify_expense_value_rule m)) a = heap m a)"
  by (simp_all add: specify_expense_item_rule_def specify_expense_moment_rule_def
        specify_expense_value_rule_def split: option.splits)

lemma frame_rules:
  assumes "transitions env st = Inr ts" and "t \<in> set ts"
  shows "context_ref (snd (snd t m)) = context_ref m
       \<and> (a \<noteq> context_ref m \<longrightarrow> heap (snd (snd t m)) a = heap m a)"
proof (cases rule: state_cases [where st = st and env = env])
  case 1
  with assms show ?thesis using frame_init by (auto simp add: transitions_init)
next
  case 2
  with assms show ?thesis using frame_main by (auto simp add: transitions_main)
next
  case 3
  with assms show ?thesis using frame_delete_account by (auto simp add: transitions_delete_account)
next
  case 4
  with assms show ?thesis using frame_set_budget by (auto simp add: transitions_set_budget)
next
  case 5
  with assms show ?thesis using frame_add_expense by (auto simp add: transitions_add_expense)
next
  case 6
  with assms show ?thesis using frame_specify(1) by (auto simp add: transitions_specify_expense_item)
next
  case 7
  with assms show ?thesis using frame_specify(2) by (auto simp add: transitions_specify_expense_moment)
next
  case 8
  with assms show ?thesis using frame_specify(3) by (auto simp add: transitions_specify_expense_value)
next
  case 9
  with assms show ?thesis by simp
next
  case 10
  with assms show ?thesis using frame_init by auto
qed

lemma frame_tryRules:
  assumes "tryRules env fuel st ts m = Some out"
      and "\<And>t. t \<in> set ts \<Longrightarrow> \<exists>s ts'. transitions env s = Inr ts' \<and> t \<in> set ts'"
  shows "context_ref (case_sum snd snd out) = context_ref m
       \<and> (a \<noteq> context_ref m \<longrightarrow> heap (case_sum snd snd out) a = heap m a)"
  using assms
proof (induction env fuel st ts m rule: tryRules.induct)
  case (1 env fuel st m)
  then show ?case by auto
next
  case (2 env fuel st t ts m)
  note tryRules_Cons [simp del] tryRules.simps(2) [simp]
  obtain nxt m1 where r: "snd t m = (nxt, m1)" by (cases "snd t m") auto
  from "2.prems"(2) [of t] obtain s ts0 where "transitions env s = Inr ts0" "t \<in> set ts0" by auto
  from frame_rules [OF this, of m a] r
  have f1: "context_ref m1 = context_ref m" "a \<noteq> context_ref m \<longrightarrow> heap m1 a = heap m a"
    by simp_all
  show ?case
  proof (cases "endsWithBang (fst nxt)")
    case True
    show ?thesis
    proof (cases fuel)
      case 0
      with True r "2.prems"(1) show ?thesis by simp
    next
      case (Suc k)
      show ?thesis
      proof (cases "transitions env (butlast (fst nxt))")
        case (Inl err)
        with Suc True r "2.prems"(1) have "out = Inl (err, m1)" by simp
        with f1 show ?thesis by simp
      next
        case (Inr ts')
        with Suc True r "2.prems"(1)
        have run: "tryRules env k (butlast (fst nxt)) ts' m1 = Some out"
          by simp
        have "context_ref (case_sum snd snd out) = context_ref m1
            \<and> (a \<noteq> context_ref m1 \<longrightarrow> heap (case_sum snd snd out) a = heap m1 a)"
          using "2.IH"(1) [OF r [symmetric] True Suc Inr run] Inr by blast
        with f1 show ?thesis by simp
      qed
    qed
  next
    case False
    show ?thesis
    proof (cases "fst nxt \<noteq> []")
      case True
      with False r "2.prems"(1) f1 show ?thesis by auto
    next
      case empty: False
      with False r "2.prems"(1)
      have run: "tryRules env fuel st ts m1 = Some out" by simp
      have "context_ref (case_sum snd snd out) = context_ref m1
          \<and> (a \<noteq> context_ref m1 \<longrightarrow> heap (case_sum snd snd out) a = heap m1 a)"
        using "2.IH"(2) [OF r [symmetric] False empty run] "2.prems"(2) by auto
      with f1 show ?thesis by simp
    qed
  qed
qed

lemma frame_execute:
  assumes "execute env fuel st m = Some out"
  shows "context_ref (case_sum snd snd out) = context_ref m
       \<and> (a \<noteq> context_ref m \<longrightarrow> heap (case_sum snd snd out) a = heap m a)"
proof (cases "transitions env st")
  case (Inl err)
  with assms show ?thesis by (auto simp add: execute_def)
next
  case (Inr ts)
  with assms have "tryRules env fuel st ts m = Some out" by (simp add: execute_def)
  then show ?thesis
    by (rule frame_tryRules) (use Inr in blast)
qed

lemma frame_transition:
  assumes "transition env fuel m = Some out"
  shows "context_ref (case_sum snd snd out) = context_ref m
       \<and> (a \<noteq> context_ref m \<longrightarrow> heap (case_sum snd snd out) a = heap m a)"
proof -
  let ?m0 = "m\<lparr>messages := []\<rparr>"
  from assms obtain o1 where e: "execute env fuel (state (ctx ?m0)) ?m0 = Some o1"
    by (auto simp add: transition_def Let_def split: option.splits)
  from frame_execute [OF e, of a]
  have f: "context_ref (case_sum snd snd o1) = context_ref m"
    "a \<noteq> context_ref m \<longrightarrow> heap (case_sum snd snd o1) a = heap m a"
    by simp_all
  show ?thesis
  proof (cases o1)
    case (Inl thrown)
    with assms e have "out = Inl thrown"
      by (auto simp add: transition_def Let_def split: prod.splits)
    with f Inl show ?thesis by simp
  next
    case (Inr stm)
    obtain st m1 where stm: "stm = (st, m1)" by (cases stm) auto
    with assms e Inr
    have "case_sum snd snd out = ctx_upd (\<lambda>c. c\<lparr>lastMessageOn := now env\<rparr>)
                   (ctx_upd (\<lambda>c. c\<lparr>messageCounter := messageCounter c + 1\<rparr>)
                      (ctx_upd (\<lambda>c. c\<lparr>state := st\<rparr>) m1))"
      by (auto simp add: transition_def Let_def)
    with f Inr stm show ?thesis by simp
  qed
qed

text \<open>
  C8. \<^verbatim>\<open>process\<close> works on a copy of the caller's context: whatever it returns, a result or
  an error, every context object that existed before the call, the caller's among them,
  is afterwards what it was before. When the session has no voice and its text is absent
  or empty, \<^verbatim>\<open>process\<close> returns the usage error to the caller, with any amount of fuel.
\<close>

theorem process_keeps_caller_context:
  assumes "session_context sess < used s"
  shows "(\<forall>r s'. process env fuel s sess = Some (r, s') \<longrightarrow>
            (\<forall>a. a < used s \<longrightarrow> cells s' a = cells s a))
       \<and> (session_voice sess = None \<and> (session_text sess = None \<or> session_text sess = Some [])
            \<longrightarrow> (\<exists>s'. process env fuel s sess = Some (Inl UsageError, s')))"
proof (intro conjI allI impI)
  fix r s' a
  assume p: "process env fuel s sess = Some (r, s')" and a: "a < used s"
  let ?s1 = "s\<lparr>cells := (cells s)(used s := cells s (session_context sess)), used := Suc (used s)\<rparr>"
  have c1: "cells ?s1 a = cells s a" using a by simp
  show "cells s' a = cells s a"
  proof (cases "queryWit env sess")
    case (Inl err)
    with p c1 show ?thesis by (auto simp add: process_def copyContext_def)
  next
    case (Inr raw)
    show ?thesis
    proof (cases "normalizePayload env raw emptyEphemeral")
      case (Inl err)
      with p c1 Inr show ?thesis by (auto simp add: process_def copyContext_def)
    next
      case n: (Inr we)
      obtain w eph where we: "we = (w, eph)" by (cases we) auto
      let ?m = "\<lparr>messages = [], actions = [], wit = w, ephemeral = eph,
                  context_ref = used s, session = sess, heap = cells ?s1\<rparr>"
      from p Inr n we obtain out where t: "transition env fuel ?m = Some out"
        and s': "s' = ?s1\<lparr>cells := heap (case_sum snd snd out)\<rparr>"
        by (auto simp add: process_def copyContext_def split: option.splits sum.splits)
      from frame_transition [OF t, of a] a have "heap (case_sum snd snd out) a = cells ?s1 a"
        by simp
      with s' c1 show ?thesis by simp
    qed
  qed
next
  assume "session_voice sess = None \<and> (session_text sess = None \<or> session_text sess = Some [])"
  then have "queryWit env sess = Inl UsageError"
    by (auto simp add: queryWit_def)
  then show "\<exists>s'. process env fuel s sess = Some (Inl UsageError, s')"
    by (simp add: process_def copyContext_def)
qed


lemma main_small_talk:
  assumes "intent (ephemeral m) = JStr []" and "messages m = []"
      and "\<not> thanks (ephemeral m)" and "\<not> greetings (ephemeral m)" and "\<not> bye (ephemeral m)"
  shows "execute env fuel ''main'' m = Some (Inr (''main'', say (Any ''confused'' []) m))"
  using assms
  by (simp add: execute_def transitions_main main_request_help_def main_tell_joke_def
        main_who_are_you_def main_are_you_bot_def main_delete_account_def main_set_budget_def
        main_query_budget_def main_query_affordability_def main_add_expense_def
        main_query_summary_def main_confused_def endsWithBang_def)

lemma normalize_empty_payload:
  "normalizePayload env (JObj []) emptyEphemeral =
     Inr (JObj [(''intents'', JArr []), (''entities'', JObj []), (''traits'', JObj [])],
          emptyEphemeral)"
  by (simp add: normalizePayload_def orElse_def processTraits_def processIntents_def
        processEntities_def emptyEphemeral_def Let_def)

lemma process_small_talk:
  "\<exists>r s'. process example_env 0 main_store example_session = Some (Inr r, s')
          \<and> result_context r = 1 \<and> messageCounter (cells s' 1) = 1"
proof -
  let ?w = "JObj [(''intents'', JArr []), (''entities'', JObj []), (''traits'', JObj [])]"
  let ?h = "(cells main_store)(used main_store := cells main_store (session_context example_session))"
  let ?m = "\<lparr>messages = [], actions = [], wit = ?w, ephemeral = emptyEphemeral,
             context_ref = used main_store, session = example_session, heap = ?h\<rparr>"
  let ?m0 = "?m\<lparr>messages := []\<rparr>"
  have q: "queryWit example_env example_session = Inr (JObj [])"
    by (simp add: queryWit_def example_env_def example_session_def)
  have c: "ctx ?m0 = cells main_store 0"
    by (simp add: ctx_def example_session_def)
  have st: "state (ctx ?m0) = ''main''"
    unfolding c by (simp add: main_store_def)
  have e: "execute example_env 0 ''main'' ?m0 = Some (Inr (''main'', say (Any ''confused'' []) ?m0))"
    by (rule main_small_talk) (simp_all add: emptyEphemeral_def)
  obtain r m4 where t: "transition example_env 0 ?m = Some (Inr (r, m4))"
    and rc: "result_context r = context_ref m4" and cr: "context_ref m4 = used main_store"
    and mc: "messageCounter (ctx m4) = messageCounter (ctx ?m0) + 1"
    using e st by (simp add: transition_def Let_def)
  have "messageCounter (heap m4 1) = 1"
    using mc cr c by (simp add: ctx_def main_store_def defaultContext_def)
  then show ?thesis
    using q normalize_empty_payload [of example_env] t rc cr
    by (simp add: process_def copyContext_def main_store_def)
qed

theorem process_keeps_caller_context_witness:
  "session_context silent_session < used main_store
   \<and> session_context example_session < used main_store
   \<and> (\<exists>s'. process example_env 0 main_store silent_session = Some (Inl UsageError, s')
          \<and> cells s' 0 = cells main_store 0)
   \<and> (\<exists>r s'. process example_env 0 main_store example_session = Some (Inr r, s')
          \<and> result_context r = 1
          \<and> messageCounter (cells s' 1) = 1
          \<and> cells s' 0 = cells main_store 0)"
proof -
  have h1: "session_context silent_session < used main_store"
    and h2: "session_context example_session < used main_store"
    by (simp_all add: silent_session_def example_session_def main_store_def)
  have v: "session_voice silent_session = None
             \<and> (session_text silent_session = None \<or> session_text silent_session = Some [])"
    by (simp add: silent_session_def example_session_def)
  have u: "used main_store = 1" by (simp add: main_store_def)
  from process_keeps_caller_context [OF h1, of example_env 0] v u
  have "\<exists>s'. process example_env 0 main_store silent_session = Some (Inl UsageError, s')
          \<and> cells s' 0 = cells main_store 0"
    by auto
  moreover
  from process_keeps_caller_context [OF h2, of example_env 0] u process_small_talk
  have "\<exists>r s'. process example_env 0 main_store example_session = Some (Inr r, s')
          \<and> result_context r = 1 \<and> messageCounter (cells s' 1) = 1
          \<and> cells s' 0 = cells main_store 0"
    by auto
  ultimately show ?thesis
    using h1 h2 by blast
qed

end
